theory Spec2Isabelle
  imports Main "HOL-Library.Sublist"
begin

section \<open>Strings and paths of the Go standard library, as far as deploy.go uses them\<close>

text \<open>
  Go strings are byte sequences; they are modelled as \<^typ>\<open>string\<close>.
  \<open>Contains\<close> and \<open>ContainsFunc\<close> are the two functions of package slices that the
  tag matching uses, written as the loops they are.
\<close>

fun Contains :: "'a list \<Rightarrow> 'a \<Rightarrow> bool" where
  "Contains [] v = False"
| "Contains (x # xs) v = (if x = v then True else Contains xs v)"

fun ContainsFunc :: "'a list \<Rightarrow> ('a \<Rightarrow> bool) \<Rightarrow> bool" where
  "ContainsFunc [] f = False"
| "ContainsFunc (x # xs) f = (if f x then True else ContainsFunc xs f)"

text \<open>\<open>strings.Trim(s, cutset)\<close>: drop the leading and the trailing bytes that occur in the cutset.\<close>

definition Trim :: "string \<Rightarrow> string \<Rightarrow> string" where
  "Trim s cutset =
     rev (dropWhile (\<lambda>c. c \<in> set cutset) (rev (dropWhile (\<lambda>c. c \<in> set cutset) s)))"

text \<open>
  \<open>strings.Split(s, sep)\<close> for a one-byte separator: the pieces between the separators,
  one more piece than there are separators (so the empty string gives one empty piece).
\<close>

fun Split :: "string \<Rightarrow> char \<Rightarrow> string list" where
  "Split [] sep = [[]]"
| "Split (c # cs) sep =
     (if c = sep then [] # Split cs sep
      else (case Split cs sep of
              [] \<Rightarrow> [[c]]
            | p # ps \<Rightarrow> (c # p) # ps))"

text \<open>\<open>strings.Join(elems, sep)\<close>.\<close>

fun JoinStrings :: "string list \<Rightarrow> string \<Rightarrow> string" where
  "JoinStrings [] sep = []"
| "JoinStrings [x] sep = x"
| "JoinStrings (x # y # ys) sep = x @ sep @ JoinStrings (y # ys) sep"

text \<open>
  \<open>filepath.Clean\<close> on a Unix path, element by element. The stack holds the elements
  written so far, last element first. An empty element and \<open>.\<close> are dropped; \<open>..\<close>
  removes the last real element, is dropped at the root of a rooted path, and is kept
  at the front of a relative path that has nothing left to remove.
\<close>

definition cleanStep :: "bool \<Rightarrow> string list \<Rightarrow> string \<Rightarrow> string list" where
  "cleanStep rooted st c =
     (if c = [] \<or> c = ''.'' then st
      else if c = ''..'' then
        (case st of
           [] \<Rightarrow> (if rooted then [] else [''..''])
         | x # xs \<Rightarrow> (if x = ''..'' then ''..'' # x # xs else xs))
      else c # st)"

definition Clean :: "string \<Rightarrow> string" where
  "Clean path =
     (if path = [] then ''.''
      else
        (let rooted = (hd path = CHR ''/'');
             out = JoinStrings (rev (foldl (cleanStep rooted) [] (Split path CHR ''/''))) ''/''
         in if rooted then CHR ''/'' # out
            else if out = [] then ''.'' else out))"

text \<open>
  \<open>filepath.Join\<close>: the elements from the first non-empty one on are joined with a
  slash and cleaned; with no non-empty element the result is the empty string.
\<close>

fun Join :: "string list \<Rightarrow> string" where
  "Join [] = []"
| "Join (e # es) = (if e \<noteq> [] then Clean (JoinStrings (e # es) ''/'') else Join es)"

text \<open>Decimal rendering of an integer, as \<open>%d\<close> prints it.\<close>

fun showNat :: "nat \<Rightarrow> string" where
  "showNat n =
     (if n < 10 then [char_of (48 + n)]
      else showNat (n div 10) @ [char_of (48 + n mod 10)])"

definition showInt :: "int \<Rightarrow> string" where
  "showInt i = (if i < 0 then CHR ''-'' # showNat (nat (- i)) else showNat (nat i))"

text \<open>
  \<open>%q\<close> of a string: the string between double quotes, with a backslash before each
  double quote and backslash. Bytes outside printable ASCII, which \<open>strconv.Quote\<close>
  writes as escape sequences, are left as they are; the column names and repository
  references quoted in this program are printable.
\<close>

definition quote :: "string \<Rightarrow> string" where
  "quote s =
     CHR 0x22 #
     concat (map (\<lambda>c. if c = CHR 0x22 \<or> c = CHR 0x5C then [CHR 0x5C, c] else [c]) s) @
     [CHR 0x22]"

section \<open>Errors\<close>

text \<open>
  A Go \<open>error\<close> value is either the structured \<open>FieldsNotFoundError\<close> of deploy.go or an
  error that carries only its message. A run-time panic (index or slice bound out of
  range) is not an error value: it unwinds the program. It is the third constructor, and
  no function of the model catches or wraps it.
\<close>

datatype error =
    ErrorString string
  | FieldsNotFoundError (Fields: "string list")
  | Panic string

text \<open>The method \<open>Error()\<close>: \<open>fmt.Sprintf("fields %q not found in header", e.Fields)\<close>.\<close>

fun Error :: "error \<Rightarrow> string" where
  "Error (ErrorString m) = m"
| "Error (FieldsNotFoundError fs) =
     ''fields ['' @ JoinStrings (map quote fs) '' '' @ ''] not found in header''"
| "Error (Panic m) = m"

text \<open>\<open>fmt.Errorf(format + "%v", err)\<close> (and \<open>%w\<close>, which prints the same message).\<close>

fun Errorf :: "string \<Rightarrow> error \<Rightarrow> error" where
  "Errorf format (Panic m) = Panic m"
| "Errorf format e = ErrorString (format @ Error e)"

section \<open>Files and package encoding/csv\<close>

text \<open>
  What the operating system gives for a path: the file cannot be opened, or it holds a
  sequence of bytes.
\<close>

datatype osfile =
    OpenFails error
  | Content string

text \<open>
  The reader takes its input line by line (\<open>readLine\<close>): a line that ends in
  \<open>\r\n\<close> is taken as ending in \<open>\n\<close>, and a \<open>\r\<close> that ends the input is dropped.
  \<open>readLines\<close> does this for the whole input at once.
\<close>

fun readLines :: "string \<Rightarrow> string" where
  "readLines [] = []"
| "readLines [c] = (if c = CHR 0x0D then [] else [c])"
| "readLines (c # d # cs) =
     (if c = CHR 0x0D \<and> d = CHR 0x0A then CHR 0x0A # readLines cs else c # readLines (d # cs))"

text \<open>
  The errors of the reader. \<open>ParseError\<close> prints the line and the column before the
  message; they are left out here.
\<close>

definition ErrBareQuote :: error where
  "ErrBareQuote = ErrorString (''bare '' @ [CHR 0x22] @ '' in non-quoted-field'')"

definition ErrQuote :: error where
  "ErrQuote = ErrorString (''extraneous or missing '' @ [CHR 0x22] @ '' in quoted-field'')"

definition ErrFieldCount :: error where
  "ErrFieldCount = ErrorString ''wrong number of fields''"

text \<open>
  \<open>csv.NewReader(f).ReadAll()\<close> with the settings of \<open>NewReader\<close>: the comma separates
  the fields, there is no comment character, quotes are strict, leading space is kept,
  and every record must have as many fields as the first one. \<open>readRecord\<close> goes
  through the bytes with the field and the record read so far and the records before
  them. Where it stands: at the start of a record (empty lines are skipped there), at the
  start of a field, inside a field without quotes, inside a quoted field (which may run
  over several lines), or behind a quote inside a quoted field, which either ends the
  field or, doubled, stands for one quote.
\<close>

datatype position = RecordStart | FieldStart | Unquoted | Quoted | QuoteInQuoted

definition endRecord :: "string list list \<Rightarrow> string list \<Rightarrow> error + string list list" where
  "endRecord records record =
     (if records \<noteq> [] \<and> length record \<noteq> length (hd records) then Inl ErrFieldCount
      else Inr (records @ [record]))"

fun readRecord ::
  "position \<Rightarrow> string \<Rightarrow> string list \<Rightarrow> string list list \<Rightarrow> string \<Rightarrow> error + string list list"
where
  "readRecord pos field record records [] =
     (case pos of
        RecordStart \<Rightarrow> Inr records
      | FieldStart \<Rightarrow> endRecord records (record @ [[]])
      | Unquoted \<Rightarrow> endRecord records (record @ [field])
      | Quoted \<Rightarrow> Inl ErrQuote
      | QuoteInQuoted \<Rightarrow> endRecord records (record @ [field]))"
| "readRecord pos field record records (c # line) =
     (case pos of
        RecordStart \<Rightarrow>
          (if c = CHR 0x0A then readRecord RecordStart [] [] records line
           else if c = CHR 0x22 then readRecord Quoted [] [] records line
           else if c = CHR '','' then readRecord FieldStart [] [[]] records line
           else readRecord Unquoted [c] [] records line)
      | FieldStart \<Rightarrow>
          (if c = CHR 0x0A then
             (case endRecord records (record @ [[]]) of
                Inl err \<Rightarrow> Inl err
              | Inr records' \<Rightarrow> readRecord RecordStart [] [] records' line)
           else if c = CHR 0x22 then readRecord Quoted [] record records line
           else if c = CHR '','' then readRecord FieldStart [] (record @ [[]]) records line
           else readRecord Unquoted [c] record records line)
      | Unquoted \<Rightarrow>
          (if c = CHR 0x0A then
             (case endRecord records (record @ [field]) of
                Inl err \<Rightarrow> Inl err
              | Inr records' \<Rightarrow> readRecord RecordStart [] [] records' line)
           else if c = CHR 0x22 then Inl ErrBareQuote
           else if c = CHR '','' then readRecord FieldStart [] (record @ [field]) records line
           else readRecord Unquoted (field @ [c]) record records line)
      | Quoted \<Rightarrow>
          (if c = CHR 0x22 then readRecord QuoteInQuoted field record records line
           else readRecord Quoted (field @ [c]) record records line)
      | QuoteInQuoted \<Rightarrow>
          (if c = CHR 0x22 then readRecord Quoted (field @ [c]) record records line
           else if c = CHR '','' then readRecord FieldStart [] (record @ [field]) records line
           else if c = CHR 0x0A then
             (case endRecord records (record @ [field]) of
                Inl err \<Rightarrow> Inl err
              | Inr records' \<Rightarrow> readRecord RecordStart [] [] records' line)
           else Inl ErrQuote))"

definition ReadAll :: "string \<Rightarrow> error + string list list" where
  "ReadAll input = readRecord RecordStart [] [] [] (readLines input)"

text \<open>
  \<open>csv.NewWriter(f).Write(record)\<close>: the fields with commas between them and a
  \<open>\n\<close> after the last. A field is put between quotes, with every quote in it
  doubled, when it is \<open>\.\<close>, when it holds a comma, a quote, \<open>\r\<close> or \<open>\n\<close>, or
  when it begins with a space (\<open>unicode.IsSpace\<close> of its first rune, read here off the
  bytes of the UTF-8 encoding); the empty field is written as nothing.
\<close>

definition IsSpace :: "string \<Rightarrow> bool" where
  "IsSpace field =
     (case field of
        [] \<Rightarrow> False
      | c # cs \<Rightarrow>
          c \<in> set [CHR 0x09, CHR 0x0A, CHR 0x0B, CHR 0x0C, CHR 0x0D, CHR 0x20] \<or>
          (\<exists>p \<in> set [[CHR 0xC2, CHR 0x85], [CHR 0xC2, CHR 0xA0], [CHR 0xE1, CHR 0x9A, CHR 0x80],
                      [CHR 0xE2, CHR 0x80, CHR 0xA8], [CHR 0xE2, CHR 0x80, CHR 0xA9],
                      [CHR 0xE2, CHR 0x80, CHR 0xAF], [CHR 0xE2, CHR 0x81, CHR 0x9F],
                      [CHR 0xE3, CHR 0x80, CHR 0x80]]. prefix p field) \<or>
          (\<exists>b \<in> set [CHR 0x80, CHR 0x81, CHR 0x82, CHR 0x83, CHR 0x84, CHR 0x85, CHR 0x86,
                      CHR 0x87, CHR 0x88, CHR 0x89, CHR 0x8A]. prefix [CHR 0xE2, CHR 0x80, b] field))"

definition fieldNeedsQuotes :: "string \<Rightarrow> bool" where
  "fieldNeedsQuotes field =
     (if field = [] then False
      else if field = [CHR 0x5C, CHR ''.''] then True
      else if \<exists>c \<in> set field. c = CHR 0x0A \<or> c = CHR 0x0D \<or> c = CHR 0x22 \<or> c = CHR '','' then True
      else IsSpace field)"

definition writeField :: "string \<Rightarrow> string" where
  "writeField field =
     (if \<not> fieldNeedsQuotes field then field
      else [CHR 0x22] @ concat (map (\<lambda>c. if c = CHR 0x22 then [c, c] else [c]) field) @ [CHR 0x22])"

definition Write :: "string list \<Rightarrow> string" where
  "Write record = JoinStrings (map writeField record) '','' @ [CHR 0x0A]"

section \<open>The inventory: header lookup and cluster selection\<close>

text \<open>The inner loop of \<open>findFieldIndices\<close>: the first position of the header that holds the field.\<close>

fun headerIndex :: "string list \<Rightarrow> string \<Rightarrow> nat \<Rightarrow> nat option" where
  "headerIndex [] field i = None"
| "headerIndex (h # hs) field i = (if h = field then Some i else headerIndex hs field (Suc i))"

text \<open>The outer loop: the map of indices and the list of missing fields, in the order of the request.\<close>

fun findFieldLoop ::
  "string list \<Rightarrow> string list \<Rightarrow> (string \<rightharpoonup> nat) \<Rightarrow> string list \<Rightarrow> (string \<rightharpoonup> nat) \<times> string list"
where
  "findFieldLoop header [] indices missingFields = (indices, missingFields)"
| "findFieldLoop header (field # fields) indices missingFields =
     (case headerIndex header field 0 of
        Some i \<Rightarrow> findFieldLoop header fields (indices(field \<mapsto> i)) missingFields
      | None \<Rightarrow> findFieldLoop header fields indices (missingFields @ [field]))"

definition findFieldIndices :: "string list \<Rightarrow> string list \<Rightarrow> error + (string \<rightharpoonup> nat)" where
  "findFieldIndices header fields =
     (if length header = 0 then Inl (FieldsNotFoundError fields)
      else
        (case findFieldLoop header fields Map.empty [] of
           (indices, missingFields) \<Rightarrow>
             if length missingFields > 0 then Inl (FieldsNotFoundError missingFields)
             else Inr indices))"

text \<open>Reading a Go map at a key: the value stored there, or the zero value.\<close>

definition mapIndex :: "(string \<rightharpoonup> nat) \<Rightarrow> string \<Rightarrow> nat" where
  "mapIndex m k = (case m k of Some i \<Rightarrow> i | None \<Rightarrow> 0)"

definition matchesAnyTags :: "string list \<Rightarrow> string list \<Rightarrow> bool" where
  "matchesAnyTags tags matchTags =
     (if length matchTags = 0 then False
      else ContainsFunc tags (\<lambda>tag. Contains matchTags tag))"

fun matchesAllLoop :: "string list \<Rightarrow> string list \<Rightarrow> bool" where
  "matchesAllLoop tags [] = True"
| "matchesAllLoop tags (tag # rest) =
     (if \<not> Contains tags tag then False else matchesAllLoop tags rest)"

definition matchesAllTags :: "string list \<Rightarrow> string list \<Rightarrow> bool" where
  "matchesAllTags tags matchTags =
     (if length matchTags = 0 then False else matchesAllLoop tags matchTags)"

text \<open>Indexing a slice: Go panics outside the range.\<close>

definition indexPanic :: "nat \<Rightarrow> nat \<Rightarrow> error" where
  "indexPanic i n =
     Panic (''index out of range ['' @ showNat i @ ''] with length '' @ showNat n)"

text \<open>
  The loop of \<open>determineClustersToUpdate\<close> over \<open>records[1:]\<close>, with the three
  column indices, the requested group and the two tag lists.
\<close>

fun selectLoop ::
  "nat \<Rightarrow> nat \<Rightarrow> nat \<Rightarrow> string \<Rightarrow> string list \<Rightarrow> string list \<Rightarrow>
   string list list \<Rightarrow> string list \<Rightarrow> error + string list"
where
  "selectLoop ni gi ti clusterGroup anyTag allTags [] clustersToUpdate = Inr clustersToUpdate"
| "selectLoop ni gi ti clusterGroup anyTag allTags (record # rest) clustersToUpdate =
     (if \<not> gi < length record then Inl (indexPanic gi (length record))
      else if clusterGroup \<noteq> record ! gi then
        selectLoop ni gi ti clusterGroup anyTag allTags rest clustersToUpdate
      else if \<not> ni < length record then Inl (indexPanic ni (length record))
      else
        (let clusterName = record ! ni in
         if length anyTag = 0 \<and> length allTags = 0 then
           selectLoop ni gi ti clusterGroup anyTag allTags rest (clustersToUpdate @ [clusterName])
         else if \<not> ti < length record then Inl (indexPanic ti (length record))
         else
           (let clusterTags = Split (Trim (record ! ti) [CHR 0x22, CHR '' '']) CHR '','' in
            if length anyTag > 0 then
              (if matchesAnyTags clusterTags anyTag then
                 selectLoop ni gi ti clusterGroup anyTag allTags rest (clustersToUpdate @ [clusterName])
               else selectLoop ni gi ti clusterGroup anyTag allTags rest clustersToUpdate)
            else
              (if matchesAllTags clusterTags allTags then
                 selectLoop ni gi ti clusterGroup anyTag allTags rest (clustersToUpdate @ [clusterName])
               else selectLoop ni gi ti clusterGroup anyTag allTags rest clustersToUpdate))))"

text \<open>
  \<open>determineClustersToUpdate\<close>, given what the file system holds at each path.
  \<open>records[0]\<close> is read before any check of the number of records; a file without
  a record (an empty file, or one of empty lines only) has none.
\<close>

definition determineClustersToUpdate ::
  "(string \<Rightarrow> osfile) \<Rightarrow> string \<Rightarrow> string \<Rightarrow> string \<Rightarrow> string list \<Rightarrow> string list \<Rightarrow>
   error + string list"
where
  "determineClustersToUpdate files repo sourceOfTruth clusterGroup anyTag allTags =
     (let filePath = Join [repo, sourceOfTruth] in
      case files filePath of
        OpenFails err \<Rightarrow> Inl err
      | Content bytes \<Rightarrow>
          (case ReadAll bytes of
             Inl err \<Rightarrow> Inl err
           | Inr records \<Rightarrow>
               (case records of
                  [] \<Rightarrow> Inl (indexPanic 0 0)
                | header # rows \<Rightarrow>
                    (case findFieldIndices header [''cluster_name'', ''cluster_group'', ''cluster_tags''] of
                       Inl err \<Rightarrow> Inl err
                     | Inr fieldIndices \<Rightarrow>
                         selectLoop
                           (mapIndex fieldIndices ''cluster_name'')
                           (mapIndex fieldIndices ''cluster_group'')
                           (mapIndex fieldIndices ''cluster_tags'')
                           clusterGroup anyTag allTags rows []))))"

section \<open>The world outside the program\<close>

text \<open>
  An entry of a directory, with the name and kind that \<open>os.ReadDir\<close> reports. The flag
  says that the operating system refuses to remove the entry (a permission, a busy
  file); a directory holds its own entries.
\<close>

datatype node =
    File (name: string) (locked: bool)
  | Dir (name: string) (locked: bool) (children: "node list")

fun IsDir :: "node \<Rightarrow> bool" where
  "IsDir (File n l) = False"
| "IsDir (Dir n l cs) = True"

datatype ResultStatus = DeploySucceeded | DeployFailed

text \<open>
  Modelled from the spec: the types \<open>clouddeploy.DeployResult\<close> and
  \<open>clouddeploy.DeployRequest\<close> are declared outside src/; the fields are the ones that
  deploy.go reads and writes (spec, sections 3 and 6).
\<close>

record DeployResult =
  ResultStatus :: ResultStatus
  FailureMessage :: string
  ArtifactFiles :: "string list"
  Metadata :: "(string \<times> string) list"

record DeployRequest =
  Project :: string
  Location :: string
  Pipeline :: string
  Target :: string
  Release :: string
  Rollout :: string

text \<open>
  Modelled from the spec: the type \<open>gitRepository\<close> and its constructor
  \<open>newGitRepository\<close> are declared outside src/ (spec, section 3, GitRepositoryRef:
  hostname, owner, repository name, committer identity). deploy.go holds repositories by
  pointer and compares the pointers, so the record carries the address of the object.
\<close>

record gitRepository =
  addr :: nat
  hostname :: string
  owner :: string
  repoName :: string
  email :: string
  username :: string

definition newGitRepository ::
  "nat \<Rightarrow> string \<Rightarrow> string \<Rightarrow> string \<Rightarrow> string \<Rightarrow> string \<Rightarrow> gitRepository"
where
  "newGitRepository a h ow r em u =
     \<lparr>addr = a, hostname = h, owner = ow, repoName = r, email = em, username = u\<rparr>"

text \<open>The methods of \<open>gitRepository\<close> that deploy.go calls.\<close>

datatype gitop =
    CloneRepo string
  | Config
  | CheckoutBranch string
  | CheckIfExists string
  | Pull string
  | DetectDiff
  | Add
  | Commit string
  | Push string

text \<open>
  The calls that leave the program, in the order they are made. Of the log output only the
  line that announces a batch is kept, with the batch and its branch name.
\<close>

datatype call =
    AccessSecretVersion string
  | GitCall gitRepository gitop
  | CreateProvider string string string string
  | OpenPullRequest string string string string
  | MergePullRequest int
  | RunCmd string "string list" string
  | UploadResult DeployResult
  | UploadArtifact string string
  | Sleep int
  | ProcessingBatch "string list" string

text \<open>
  The state of the world: the files by path, whether a file can be created and whether
  its \<open>k\<close>-th record can be written, the directories by path, and the trace of calls
  made so far.
\<close>

record world =
  files :: "string \<Rightarrow> osfile"
  createFails :: "string \<Rightarrow> error option"
  writeFails :: "string \<Rightarrow> nat \<Rightarrow> error option"
  tree :: "string \<Rightarrow> node option"
  trace :: "call list"

text \<open>How a started process ends, for \<open>runCmd\<close>.\<close>

datatype exec_result =
    StartFails error
  | WaitFails error string
  | Exited string

text \<open>
  The collaborators, each a function of the world as it is when the call is made (its
  trace included, so that a second call may answer differently from the first). Git
  commands and external processes also change the files. The methods of
  \<open>gitRepository\<close>, the pull-request providers, the Secret Manager and storage clients
  and the process started by \<open>runCmd\<close> are not code of deploy.go; they are the
  parameters of the model, and every theorem holds for all of them.
  \<open>resultMetadata\<close> stands for the metadata map built from constants declared
  outside src/, and \<open>crc32Checksum\<close> for the Castagnoli checksum of package crc32.
\<close>

record env =
  secretManager :: "world \<Rightarrow> string \<Rightarrow> error + string \<times> int"
  crc32Checksum :: "string \<Rightarrow> int"
  gitRun :: "world \<Rightarrow> gitRepository \<Rightarrow> gitop \<Rightarrow> (error + string option) \<times> world"
  createProvider :: "world \<Rightarrow> string \<Rightarrow> string \<Rightarrow> string \<Rightarrow> string \<Rightarrow> error option"
  openPullRequest :: "world \<Rightarrow> string \<Rightarrow> string \<Rightarrow> string \<Rightarrow> string \<Rightarrow> error + int"
  mergePullRequest :: "world \<Rightarrow> int \<Rightarrow> error option"
  execCommand :: "world \<Rightarrow> string \<Rightarrow> string list \<Rightarrow> string \<Rightarrow> exec_result \<times> world"
  gcsUploadResult :: "world \<Rightarrow> DeployResult \<Rightarrow> error + string"
  gcsUploadArtifact :: "world \<Rightarrow> string \<Rightarrow> string \<Rightarrow> error + string"
  resultMetadata :: "(string \<times> string) list"

definition logCall :: "call \<Rightarrow> world \<Rightarrow> world" where
  "logCall c w = w\<lparr>trace := trace w @ [c]\<rparr>"

text \<open>A step of the program: it returns an error or a value, and the world after it.\<close>

type_synonym 'a io = "world \<Rightarrow> (error + 'a) \<times> world"

definition andThen :: "'a io \<Rightarrow> ('a \<Rightarrow> 'b io) \<Rightarrow> 'b io" where
  "andThen m f w = (case m w of (Inl err, w') \<Rightarrow> (Inl err, w') | (Inr x, w') \<Rightarrow> f x w')"

definition orFail :: "string \<Rightarrow> 'a io \<Rightarrow> 'a io" where
  "orFail format m w = (case m w of (Inl err, w') \<Rightarrow> (Inl (Errorf format err), w') | (Inr x, w') \<Rightarrow> (Inr x, w'))"

definition ret :: "'a \<Rightarrow> 'a io" where
  "ret x w = (Inr x, w)"

definition fail :: "error \<Rightarrow> 'a io" where
  "fail err w = (Inl err, w)"

section \<open>runCmd\<close>

text \<open>
  \<open>runCmd\<close> starts the command and waits for it; the error of \<open>Wait\<close> is reported
  with what the command wrote to its standard error.
\<close>

definition runCmd :: "env \<Rightarrow> string \<Rightarrow> string list \<Rightarrow> string \<Rightarrow> string io" where
  "runCmd e binPath args dir w =
     (case execCommand e w binPath args dir of
        (r, w') \<Rightarrow>
          (let w'' = w'\<lparr>trace := trace w @ [RunCmd binPath args dir]\<rparr> in
           case r of
             StartFails err \<Rightarrow> (Inl (Errorf ''failed to start command: '' err), w'')
           | WaitFails err stderr \<Rightarrow>
               (Inl (Errorf ''error running command: '' (ErrorString (Error err @ [CHR 0x0A] @ stderr))), w'')
           | Exited stdout \<Rightarrow> (Inr stdout, w'')))"

section \<open>Updating the revisions in the inventory\<close>

text \<open>
  The loop of \<open>updatePlatformAndWorkloadRepositoryRevision\<close> over all records (the
  header included). \<open>k\<close> counts the records, \<open>out\<close> holds the records written so far.
\<close>

fun updateLoop ::
  "nat \<Rightarrow> nat \<Rightarrow> nat \<Rightarrow> string list \<Rightarrow> string \<Rightarrow> string \<Rightarrow> (nat \<Rightarrow> error option) \<Rightarrow>
   string list list \<Rightarrow> nat \<Rightarrow> string list list \<Rightarrow> error option \<times> string list list"
where
  "updateLoop ci pi wi clusterNames platformRevision workloadRevision wfail [] k out = (None, out)"
| "updateLoop ci pi wi clusterNames platformRevision workloadRevision wfail (record # rest) k out =
     (if \<not> ci < length record then (Some (indexPanic ci (length record)), out)
      else if Contains clusterNames (record ! ci) \<and> length platformRevision > 0 \<and> \<not> pi < length record
        then (Some (indexPanic pi (length record)), out)
      else
        (let record1 =
               (if Contains clusterNames (record ! ci) \<and> length platformRevision > 0
                then record[pi := platformRevision] else record)
         in
         if Contains clusterNames (record1 ! ci) \<and> length workloadRevision > 0 \<and> \<not> wi < length record1
           then (Some (indexPanic wi (length record1)), out)
         else
           (let record2 =
                  (if Contains clusterNames (record1 ! ci) \<and> length workloadRevision > 0
                   then record1[wi := workloadRevision] else record1)
            in
            case wfail k of
              Some err \<Rightarrow> (Some (Errorf ''error writing CSV record: '' err), out)
            | None \<Rightarrow>
                updateLoop ci pi wi clusterNames platformRevision workloadRevision wfail
                  rest (Suc k) (out @ [record2]))))"

text \<open>
  The function opens and parses the file, looks the three columns up, creates the file
  anew (which empties it) and writes every record back through a \<open>csv.Writer\<close>. The
  world after it holds at the path the bytes that were written.
\<close>

definition updatePlatformAndWorkloadRepositoryRevision ::
  "string \<Rightarrow> string list \<Rightarrow> string \<Rightarrow> string \<Rightarrow> string \<Rightarrow> world \<Rightarrow> error option \<times> world"
where
  "updatePlatformAndWorkloadRepositoryRevision repo clusterNames sourceOfTruth
       platformRevision workloadRevision w =
     (let filePath = Join [repo, sourceOfTruth] in
      case files w filePath of
        OpenFails err \<Rightarrow> (Some (Errorf (''unable to open input file '' @ filePath @ '': '') err), w)
      | Content bytes \<Rightarrow>
          (case ReadAll bytes of
             Inl err \<Rightarrow> (Some (Errorf ''error reading CSV records: '' err), w)
           | Inr records \<Rightarrow>
               (case records of
                  [] \<Rightarrow> (Some (indexPanic 0 0), w)
                | header # rows \<Rightarrow>
                    (case findFieldIndices header
                            [''cluster_name'', ''platform_repository_revision'',
                             ''workload_repository_revision''] of
                       Inl err \<Rightarrow> (Some err, w)
                     | Inr fieldIndices \<Rightarrow>
                         (case createFails w filePath of
                            Some err \<Rightarrow> (Some (Errorf ''error creating file for writing: '' err), w)
                          | None \<Rightarrow>
                              (case updateLoop
                                      (mapIndex fieldIndices ''cluster_name'')
                                      (mapIndex fieldIndices ''platform_repository_revision'')
                                      (mapIndex fieldIndices ''workload_repository_revision'')
                                      clusterNames platformRevision workloadRevision
                                      (writeFails w filePath) records 0 [] of
                                 (err, out) \<Rightarrow>
                                   (err, w\<lparr>files := (files w)(filePath := Content (concat (map Write out)))\<rparr>)))))))"

section \<open>Clearing the output directory and running the renderer\<close>

text \<open>
  \<open>os.RemoveAll\<close> on an entry: \<open>None\<close> when the entry is gone, otherwise what is left
  of it. It removes everything it can and fails when something is left.
\<close>

fun removeAll :: "node \<Rightarrow> node option" where
  "removeAll (File n l) = (if l then Some (File n l) else None)"
| "removeAll (Dir n l cs) =
     (let left = concat (map (\<lambda>c. case removeAll c of None \<Rightarrow> [] | Some r \<Rightarrow> [r]) cs)
      in if left = [] \<and> \<not> l then None else Some (Dir n l left))"

text \<open>
  \<open>os.Remove\<close> and \<open>os.RemoveAll\<close> at the path of an entry of a directory: the result
  and the entries of the directory afterwards. \<open>os.Remove\<close> fails on a missing entry and
  on a directory that is not empty; \<open>os.RemoveAll\<close> succeeds on a missing entry.
\<close>

definition osRemove :: "string \<Rightarrow> string \<Rightarrow> node list \<Rightarrow> error option \<times> node list" where
  "osRemove path nm entries =
     (case find (\<lambda>c. name c = nm) entries of
        None \<Rightarrow> (Some (ErrorString (''remove '' @ path @ '': no such file or directory'')), entries)
      | Some c \<Rightarrow>
          (if IsDir c \<and> children c \<noteq> [] then
             (Some (ErrorString (''remove '' @ path @ '': directory not empty'')), entries)
           else if locked c then
             (Some (ErrorString (''remove '' @ path @ '': operation not permitted'')), entries)
           else (None, filter (\<lambda>c. name c \<noteq> nm) entries)))"

definition osRemoveAll :: "string \<Rightarrow> string \<Rightarrow> node list \<Rightarrow> error option \<times> node list" where
  "osRemoveAll path nm entries =
     (case find (\<lambda>c. name c = nm) entries of
        None \<Rightarrow> (None, entries)
      | Some c \<Rightarrow>
          (case removeAll c of
             None \<Rightarrow> (None, filter (\<lambda>c. name c \<noteq> nm) entries)
           | Some r \<Rightarrow>
               (Some (ErrorString (''unlinkat '' @ path @ '': operation not permitted'')),
                map (\<lambda>c. if name c = nm then r else c) entries)))"

text \<open>
  The loop of \<open>cleanHydratedDirectory\<close> over the entries that \<open>os.ReadDir\<close> returned,
  with the entries the directory holds now.
\<close>

fun cleanLoop :: "string \<Rightarrow> node list \<Rightarrow> node list \<Rightarrow> error option \<times> node list" where
  "cleanLoop directory [] entries = (None, entries)"
| "cleanLoop directory (file # rest) entries =
     (if name file = ''.gitkeep'' then cleanLoop directory rest entries
      else
        (let path = Join [directory, name file] in
         if IsDir file then
           (case osRemoveAll path (name file) entries of
              (Some err, entries') \<Rightarrow> (Some err, entries')
            | (None, entries') \<Rightarrow> cleanLoop directory rest entries')
         else
           (case osRemove path (name file) entries of
              (Some err, entries') \<Rightarrow> (Some err, entries')
            | (None, entries') \<Rightarrow> cleanLoop directory rest entries')))"

definition cleanHydratedDirectory :: "string \<Rightarrow> world \<Rightarrow> error option \<times> world" where
  "cleanHydratedDirectory directory w =
     (case tree w directory of
        None \<Rightarrow> (Some (ErrorString (''open '' @ directory @ '': no such file or directory'')), w)
      | Some (File n l) \<Rightarrow>
          (Some (ErrorString (''readdirent '' @ directory @ '': not a directory'')), w)
      | Some (Dir n l entries) \<Rightarrow>
          (case cleanLoop directory entries entries of
             (err, entries') \<Rightarrow>
               (err, w\<lparr>tree := (tree w)(directory := Some (Dir n l entries'))\<rparr>)))"

text \<open>
  \<open>runHydrationCLI\<close>. The result of \<open>cleanHydratedDirectory\<close> is not looked at; the
  renderer is started with the same arguments a second time when the first run succeeds.
\<close>

definition hydrateArgs :: "string \<Rightarrow> string \<Rightarrow> string \<Rightarrow> string \<Rightarrow> string \<Rightarrow> string list" where
  "hydrateArgs sourceRepo baseLibraryPath overlayPath outputPath sourceOfTruth =
     [''-b'', Join [sourceRepo, baseLibraryPath],
      ''-o'', Join [sourceRepo, overlayPath],
      ''-y'', Join [sourceRepo, outputPath],
      Join [sourceRepo, sourceOfTruth]]"

text \<open>The directory that is cleared: under the output repository, or under the source repository when no output repository is named.\<close>

definition clearedDirectory :: "string \<Rightarrow> string \<Rightarrow> string \<Rightarrow> string" where
  "clearedDirectory sourceRepo outputRepo0 outputPath =
     (let outputRepo = (if outputRepo0 = [] then sourceRepo else outputRepo0)
      in Join [outputRepo, outputPath])"

definition runHydrationCLI ::
  "env \<Rightarrow> string \<Rightarrow> string \<Rightarrow> string \<Rightarrow> string \<Rightarrow> string \<Rightarrow> string \<Rightarrow> unit io"
where
  "runHydrationCLI e sourceRepo baseLibraryPath overlayPath outputRepo0 outputPath sourceOfTruth w =
     (let w1 = snd (cleanHydratedDirectory (clearedDirectory sourceRepo outputRepo0 outputPath) w);
          args = hydrateArgs sourceRepo baseLibraryPath overlayPath outputPath sourceOfTruth
      in
      case runCmd e ''hydrate'' args [] w1 of
        (Inl err, w2) \<Rightarrow> (Inl err, w2)
      | (Inr out1, w2) \<Rightarrow>
          (case runCmd e ''hydrate'' args [] w2 of
             (Inl err, w3) \<Rightarrow> (Inl err, w3)
           | (Inr out2, w3) \<Rightarrow> (Inr (), w3)))"

section \<open>The deployer\<close>

record params =
  gitSourceRepo :: string
  gitSourceBranch :: string
  gitSecret :: string
  gitUsername :: string
  gitEmail :: string
  gitCommitMessage :: string
  gitOutputRepo :: string
  gitOutputBranch :: string
  gitPullRequestTitle :: string
  gitPullRequestBody :: string
  enablePullRequestMerge :: bool
  hydrationClusterGroup :: string
  hydrationPlatformRevision :: string
  hydrationWorkloadRevision :: string
  hydrationBatchSize :: int
  hydrationWaitTimeBetweenBatches :: int
  hydrationSourceOfTruth :: string
  hydrationBaseDir :: string
  hydrationOverlaysDir :: string
  hydrationOutputDir :: string
  matchClustersHavingAnyListedTag :: "string list"
  matchClustersHavingAllListedTags :: "string list"

record deployer =
  req :: DeployRequest
  params :: params

definition accessSecretVersion :: "env \<Rightarrow> string \<Rightarrow> string io" where
  "accessSecretVersion e svName w =
     (let w' = logCall (AccessSecretVersion svName) w in
      case secretManager e w svName of
        Inl err \<Rightarrow> (Inl (Errorf (''failed to access secret version '' @ svName @ '': '') err), w')
      | Inr (payload, dataCrc32C) \<Rightarrow>
          (if crc32Checksum e payload \<noteq> dataCrc32C then
             (Inl (ErrorString
                ''secret version response failed CRC-32 checksum validation; possible data corruption''), w')
           else (Inr payload, w')))"

definition gitCall :: "env \<Rightarrow> gitRepository \<Rightarrow> gitop \<Rightarrow> (string option) io" where
  "gitCall e gitRepo op w =
     (case gitRun e w gitRepo op of
        (r, w') \<Rightarrow> (r, w'\<lparr>trace := trace w @ [GitCall gitRepo op]\<rparr>))"

text \<open>Pull the branch when \<open>checkIfExists\<close> gave an output.\<close>

definition pullIfExists :: "env \<Rightarrow> gitRepository \<Rightarrow> string \<Rightarrow> unit io" where
  "pullIfExists e gitRepo branch =
     andThen (orFail (''unable to check if branch '' @ branch @ '' exists: '')
                (gitCall e gitRepo (CheckIfExists branch))) (\<lambda>output.
     if output \<noteq> None then
       andThen (orFail (''unable to pull branch '' @ branch @ '': '')
                  (gitCall e gitRepo (Pull branch))) (\<lambda>_. ret ())
     else ret ())"

definition setupGitWorkspace :: "env \<Rightarrow> string \<Rightarrow> gitRepository \<Rightarrow> string \<Rightarrow> unit io" where
  "setupGitWorkspace e secret gitRepo branch =
     andThen (orFail (''failed to clone git repository '' @ repoName gitRepo @ '': '')
                (gitCall e gitRepo (CloneRepo secret))) (\<lambda>_.
     andThen (orFail ''failed setting up the git config in the git repository: ''
                (gitCall e gitRepo Config)) (\<lambda>_.
     andThen (orFail (''unable to checkout branch '' @ branch @ '': '')
                (gitCall e gitRepo (CheckoutBranch branch))) (\<lambda>_.
     pullIfExists e gitRepo branch)))"

definition resetGitWorkspace :: "env \<Rightarrow> gitRepository \<Rightarrow> string \<Rightarrow> string \<Rightarrow> unit io" where
  "resetGitWorkspace e gitRepo sourceBranch featureBranch =
     andThen (orFail ''failed setting up the git config in the git repository: ''
                (gitCall e gitRepo Config)) (\<lambda>_.
     andThen (orFail (''unable to checkout branch '' @ sourceBranch @ '': '')
                (gitCall e gitRepo (CheckoutBranch sourceBranch))) (\<lambda>_.
     andThen (pullIfExists e gitRepo sourceBranch) (\<lambda>_.
     andThen (orFail (''unable to checkout branch '' @ featureBranch @ '': '')
                (gitCall e gitRepo (CheckoutBranch featureBranch))) (\<lambda>_.
     pullIfExists e gitRepo featureBranch))))"

definition commitPushGitWorkspace :: "env \<Rightarrow> deployer \<Rightarrow> gitRepository \<Rightarrow> string \<Rightarrow> unit io" where
  "commitPushGitWorkspace e d gitRepo featureBranch =
     andThen (orFail ''unable to git add changes: '' (gitCall e gitRepo Add)) (\<lambda>_.
     (let commitMsg =
            (if length (gitCommitMessage (params d)) = 0 then
               ''Delivery Pipeline: '' @ Pipeline (req d) @ '' Release: '' @ Release (req d) @
               '' Rollout: '' @ Rollout (req d)
             else gitCommitMessage (params d))
      in
      andThen (orFail ''unable to git commit changes: '' (gitCall e gitRepo (Commit commitMsg))) (\<lambda>_.
      andThen (orFail (''unable to git push changes to branch '' @ featureBranch @ '': '')
                 (gitCall e gitRepo (Push featureBranch))) (\<lambda>_. ret ()))))"

definition providerCreate :: "env \<Rightarrow> string \<Rightarrow> string \<Rightarrow> string \<Rightarrow> string \<Rightarrow> unit io" where
  "providerCreate e h r ow secret w =
     (case createProvider e w h r ow secret of
        Some err \<Rightarrow> (Inl err, logCall (CreateProvider h r ow secret) w)
      | None \<Rightarrow> (Inr (), logCall (CreateProvider h r ow secret) w))"

definition providerOpen :: "env \<Rightarrow> string \<Rightarrow> string \<Rightarrow> string \<Rightarrow> string \<Rightarrow> int io" where
  "providerOpen e src dst title body w =
     (openPullRequest e w src dst title body, logCall (OpenPullRequest src dst title body) w)"

definition providerMerge :: "env \<Rightarrow> int \<Rightarrow> unit io" where
  "providerMerge e n w =
     (case mergePullRequest e w n of
        Some err \<Rightarrow> (Inl err, logCall (MergePullRequest n) w)
      | None \<Rightarrow> (Inr (), logCall (MergePullRequest n) w))"

definition handleDestinationBranch ::
  "env \<Rightarrow> deployer \<Rightarrow> gitRepository \<Rightarrow> string \<Rightarrow> string \<Rightarrow> string \<Rightarrow> unit io"
where
  "handleDestinationBranch e d gitRepo secret featureBranchName destinationBranch =
     (if length destinationBranch = 0 then ret ()
      else
        (let title =
               (if length (gitPullRequestTitle (params d)) = 0 then
                  ''[Rollout Manager]: '' @ featureBranchName
                else gitPullRequestTitle (params d));
             body =
               (if length (gitPullRequestBody (params d)) = 0 then
                  ''Project: '' @ Project (req d) @ [CHR 0x0A] @
                  ''Location: '' @ Location (req d) @ [CHR 0x0A] @
                  ''Delivery Pipeline: '' @ Pipeline (req d) @ [CHR 0x0A] @
                  ''Target: '' @ Target (req d) @ [CHR 0x0A] @
                  ''Release: '' @ Release (req d) @ [CHR 0x0A] @
                  ''Rollout: '' @ Rollout (req d)
                else gitPullRequestBody (params d))
         in
         andThen (orFail ''unable to create git provider: ''
                    (providerCreate e (hostname gitRepo) (repoName gitRepo) (owner gitRepo) secret)) (\<lambda>_.
         andThen (orFail (''unable to open pull request from '' @ featureBranchName @ '' to '' @
                            destinationBranch @ '': '')
                    (providerOpen e featureBranchName destinationBranch title body)) (\<lambda>prNumber.
         if \<not> enablePullRequestMerge (params d) then ret ()
         else
           andThen (orFail (''unable to merge pull request '' @ showInt prNumber @ '': '')
                      (providerMerge e prNumber)) (\<lambda>_. ret ())))))"

text \<open>
  \<open>clustersToUpdate[i:end]\<close>: Go panics unless \<open>0 \<le> i \<le> end \<le> len\<close> (the capacity is not
  below the length).
\<close>

definition sliceOf :: "'a list \<Rightarrow> int \<Rightarrow> int \<Rightarrow> error + 'a list" where
  "sliceOf xs i j =
     (if j < 0 \<or> int (length xs) < j then
        Inl (Panic (''slice bounds out of range [:'' @ showInt j @ '']''))
      else if i < 0 \<or> j < i then
        Inl (Panic (''slice bounds out of range ['' @ showInt i @ '':'' @ showInt j @ '']''))
      else Inr (take (nat (j - i)) (drop (nat i) xs)))"

text \<open>
  \<open>int(math.Ceil(float64(n) / float64(batchSize)))\<close>. Lengths and batch sizes are far below
  \<open>2^53\<close>, where the quotient of the two floats rounds to the right side of every integer,
  so the result is the ceiling of the exact quotient. With \<open>batchSize = 0\<close> (then \<open>n = 0\<close>
  too) the quotient is not a number and its conversion is implementation-dependent; it is
  \<open>0\<close> here, and the loop that would use it has no iteration.
\<close>

definition ceilDiv :: "int \<Rightarrow> int \<Rightarrow> int" where
  "ceilDiv n batchSize = (if batchSize = 0 then 0 else - ((- n) div batchSize))"

definition detectDiffStep :: "env \<Rightarrow> gitRepository \<Rightarrow> string \<Rightarrow> unit io" where
  "detectDiffStep e gitRepo featureBranchName =
     andThen (orFail ''unable to run git status: '' (gitCall e gitRepo DetectDiff)) (\<lambda>op.
     if op = None \<or> op = Some [] then
       fail (ErrorString
         (''no diff detected between the rendered manifest and the manifest on branch '' @
          featureBranchName))
     else ret ())"

text \<open>
  The steps of one batch, after the batch and its branch name are known: both workspaces
  are reset (the output workspace only when the two references differ), the inventory is
  updated, the renderer runs, and the changes of the source workspace are committed,
  pushed and proposed; the same is done for the output workspace when it is another
  object; then the program sleeps.
\<close>

definition batchSteps ::
  "env \<Rightarrow> deployer \<Rightarrow> string \<Rightarrow> gitRepository \<Rightarrow> gitRepository \<Rightarrow> string list \<Rightarrow> string \<Rightarrow> unit io"
where
  "batchSteps e d secret gitSrc gitOut batch featureBranchName =
     andThen (orFail ''unable to reset git workspace: ''
                (resetGitWorkspace e gitSrc (gitSourceBranch (params d)) featureBranchName)) (\<lambda>_.
     andThen (if gitSourceRepo (params d) \<noteq> gitOutputRepo (params d) then
                orFail ''unable to reset git workspace: ''
                  (resetGitWorkspace e gitOut (gitOutputBranch (params d)) featureBranchName)
              else ret ()) (\<lambda>_.
     andThen (orFail ''unable to update platform revision: ''
                (\<lambda>w. case updatePlatformAndWorkloadRepositoryRevision (repoName gitSrc) batch
                             (hydrationSourceOfTruth (params d)) (hydrationPlatformRevision (params d))
                             (hydrationWorkloadRevision (params d)) w of
                        (Some err, w') \<Rightarrow> (Inl err, w')
                      | (None, w') \<Rightarrow> (Inr (), w'))) (\<lambda>_.
     andThen (orFail ''unable to hydrate: ''
                (runHydrationCLI e (repoName gitSrc) (hydrationBaseDir (params d))
                   (hydrationOverlaysDir (params d)) (repoName gitOut)
                   (hydrationOutputDir (params d)) (hydrationSourceOfTruth (params d)))) (\<lambda>_.
     andThen (detectDiffStep e gitSrc featureBranchName) (\<lambda>_.
     andThen (orFail ''unable to commit and push changes: ''
                (commitPushGitWorkspace e d gitSrc featureBranchName)) (\<lambda>_.
     andThen (handleDestinationBranch e d gitSrc secret featureBranchName
                (gitOutputBranch (params d))) (\<lambda>_.
     andThen (if addr gitSrc \<noteq> addr gitOut then
                andThen (detectDiffStep e gitOut featureBranchName) (\<lambda>_.
                andThen (orFail ''unable to commit and push changes: ''
                           (commitPushGitWorkspace e d gitOut featureBranchName)) (\<lambda>_.
                handleDestinationBranch e d gitOut secret featureBranchName
                  (gitOutputBranch (params d))))
              else ret ()) (\<lambda>_.
     (\<lambda>w. (Inr (), logCall (Sleep (hydrationWaitTimeBetweenBatches (params d))) w))))))))))"

text \<open>
  The body of the loop over the batches, for the batch that starts at \<open>i\<close>: the slice
  of the selection (its end computed from the batch size as configured), the branch
  name, the log line, and the steps.
\<close>

definition batchBody ::
  "env \<Rightarrow> deployer \<Rightarrow> string \<Rightarrow> gitRepository \<Rightarrow> gitRepository \<Rightarrow> string list \<Rightarrow>
   int \<Rightarrow> int \<Rightarrow> int \<Rightarrow> unit io"
where
  "batchBody e d secret gitSrc gitOut clustersToUpdate numBatches i batchCounter =
     (let end0 = i + hydrationBatchSize (params d);
          end1 = (if end0 > int (length clustersToUpdate) then int (length clustersToUpdate) else end0)
      in
      andThen (\<lambda>w. (sliceOf clustersToUpdate i end1, w)) (\<lambda>batch.
      (let featureBranchName =
             Rollout (req d) @ ''__'' @ showInt batchCounter @ ''/'' @ showInt numBatches
       in
       andThen (\<lambda>w. (Inr (), logCall (ProcessingBatch batch featureBranchName) w)) (\<lambda>_.
       batchSteps e d secret gitSrc gitOut batch featureBranchName))))"

text \<open>
  The loop \<open>for i := 0; i < len(clustersToUpdate); i += batchSize\<close>. A run that never
  leaves the loop has the value \<open>None\<close>.
\<close>

partial_function (option) batchLoop ::
  "env \<Rightarrow> deployer \<Rightarrow> string \<Rightarrow> gitRepository \<Rightarrow> gitRepository \<Rightarrow> string list \<Rightarrow>
   int \<Rightarrow> int \<Rightarrow> int \<Rightarrow> int \<Rightarrow> world \<Rightarrow> ((error + unit) \<times> world) option"
where
  "batchLoop e d secret gitSrc gitOut clustersToUpdate batchSize numBatches i batchCounter w =
     (if i < int (length clustersToUpdate) then
        (case batchBody e d secret gitSrc gitOut clustersToUpdate numBatches i batchCounter w of
           (Inl err, w') \<Rightarrow> Some (Inl err, w')
         | (Inr u, w') \<Rightarrow>
             batchLoop e d secret gitSrc gitOut clustersToUpdate batchSize numBatches
               (i + batchSize) (batchCounter + 1) w')
      else Some (Inr (), w))"

declare batchLoop.simps [code]

text \<open>
  What \<open>deploy\<close> does before the loop: the secret, the two workspaces and the selection.
  The output repository is a second object only when the two references differ.
\<close>

definition deployPrepare ::
  "env \<Rightarrow> deployer \<Rightarrow> (string \<times> gitRepository \<times> gitRepository \<times> string list) io"
where
  "deployPrepare e d =
     (let p = params d in
      andThen (orFail ''unable to access git secret: '' (accessSecretVersion e (gitSecret p))) (\<lambda>secret.
      (let sourceRepoParts = Split (gitSourceRepo p) CHR ''/'' in
       if length sourceRepoParts \<noteq> 3 then
         fail (ErrorString (''invalid git repository reference: '' @ quote (gitSourceRepo p)))
       else
         (let gitSrc = newGitRepository 0 (sourceRepoParts ! 0) (sourceRepoParts ! 1)
                         (sourceRepoParts ! 2) (gitEmail p) (gitUsername p)
          in
          andThen (orFail ''unable to set up git workspace: ''
                     (setupGitWorkspace e secret gitSrc (gitSourceBranch p))) (\<lambda>_.
          andThen
            (if gitSourceRepo p \<noteq> gitOutputRepo p then
               (let outputRepoParts = Split (gitOutputRepo p) CHR ''/'' in
                if length outputRepoParts \<noteq> 3 then
                  fail (ErrorString (''invalid git repository reference: '' @ quote (gitOutputRepo p)))
                else
                  (let gitOut = newGitRepository 1 (outputRepoParts ! 0) (outputRepoParts ! 1)
                                  (outputRepoParts ! 2) (gitEmail p) (gitUsername p)
                   in
                   andThen (orFail ''unable to set up git workspace: ''
                              (setupGitWorkspace e secret gitOut (gitOutputBranch p))) (\<lambda>_.
                   ret gitOut)))
             else ret gitSrc) (\<lambda>gitOut.
          andThen (orFail ''Unable to determine clusters to be updated: ''
                     (\<lambda>w. (determineClustersToUpdate (files w) (repoName gitSrc)
                              (hydrationSourceOfTruth p) (hydrationClusterGroup p)
                              (matchClustersHavingAnyListedTag p)
                              (matchClustersHavingAllListedTags p), w))) (\<lambda>clustersToUpdate.
          ret (secret, gitSrc, gitOut, clustersToUpdate))))))))"

text \<open>What \<open>deploy\<close> does after the loop: the inventory is uploaded as the artifact.\<close>

definition deployFinish :: "env \<Rightarrow> deployer \<Rightarrow> gitRepository \<Rightarrow> DeployResult io" where
  "deployFinish e d gitSrc =
     andThen (orFail ''error uploading deploy artifact: ''
                (\<lambda>w. (gcsUploadArtifact e w ''source_of_truth.csv''
                         (Join [repoName gitSrc, hydrationSourceOfTruth (params d)]),
                       logCall (UploadArtifact ''source_of_truth.csv''
                         (Join [repoName gitSrc, hydrationSourceOfTruth (params d)])) w))) (\<lambda>dURI.
     ret \<lparr>ResultStatus = DeploySucceeded, FailureMessage = [], ArtifactFiles = [dURI],
          Metadata = resultMetadata e\<rparr>)"

text \<open>
  \<open>deploy\<close>. The test of \<open>err\<close> after the loop reads the variable that the selection
  assigned last, which is \<open>nil\<close> there, so it has no branch here.
\<close>

definition deploy :: "env \<Rightarrow> deployer \<Rightarrow> world \<Rightarrow> ((error + DeployResult) \<times> world) option" where
  "deploy e d w =
     (case deployPrepare e d w of
        (Inl err, w1) \<Rightarrow> Some (Inl err, w1)
      | (Inr (secret, gitSrc, gitOut, clustersToUpdate), w1) \<Rightarrow>
          (let batchSize =
                 (if hydrationBatchSize (params d) > 0 then hydrationBatchSize (params d)
                  else int (length clustersToUpdate));
               numBatches = ceilDiv (int (length clustersToUpdate)) batchSize
           in
           case batchLoop e d secret gitSrc gitOut clustersToUpdate batchSize numBatches 0 1 w1 of
             None \<Rightarrow> None
           | Some (Inl err, w2) \<Rightarrow> Some (Inl err, w2)
           | Some (Inr u, w2) \<Rightarrow> Some (deployFinish e d gitSrc w2)))"

text \<open>
  \<open>process\<close>: the error it returns, if any, and the world afterwards. A panic in
  \<open>deploy\<close> ends the program before anything is uploaded. In the branch of a failed
  deploy, \<open>rURI, err := d.req.UploadResult(...)\<close> declares a new \<open>err\<close> in the block; the
  \<open>return err\<close> that ends the block returns this variable, which is \<open>nil\<close> after a
  successful upload.
\<close>

definition uploadResult :: "env \<Rightarrow> DeployResult \<Rightarrow> string io" where
  "uploadResult e dr w = (gcsUploadResult e w dr, logCall (UploadResult dr) w)"

definition process :: "env \<Rightarrow> deployer \<Rightarrow> world \<Rightarrow> (error option \<times> world) option" where
  "process e d w =
     (case deploy e d w of
        None \<Rightarrow> None
      | Some (Inl (Panic m), w1) \<Rightarrow> Some (Some (Panic m), w1)
      | Some (Inl err, w1) \<Rightarrow>
          (let dr = \<lparr>ResultStatus = DeployFailed, FailureMessage = Error err, ArtifactFiles = [],
                     Metadata = resultMetadata e\<rparr>
           in
           case uploadResult e dr w1 of
             (Inl err', w2) \<Rightarrow> Some (Some (Errorf ''error uploading failed deploy results: '' err'), w2)
           | (Inr rURI, w2) \<Rightarrow> (let err' = None in Some (err', w2)))
      | Some (Inr res, w1) \<Rightarrow>
          (case uploadResult e res w1 of
             (Inl err, w2) \<Rightarrow> Some (Some (Errorf ''error uploading deploy results: '' err), w2)
           | (Inr rURI, w2) \<Rightarrow> Some (None, w2)))"

section \<open>The selection as the specification words it\<close>

text \<open>
  The tag set of a row is its \<open>cluster_tags\<close> cell, trimmed of surrounding quotes and
  spaces and split at the commas. The policy gives precedence to the match-any list.
\<close>

definition tagSet :: "string \<Rightarrow> string set" where
  "tagSet cell = set (Split (Trim cell [CHR 0x22, CHR '' '']) CHR '','')"

definition tagPolicy :: "string list \<Rightarrow> string list \<Rightarrow> string set \<Rightarrow> bool" where
  "tagPolicy matchAny matchAll tags =
     (if matchAny \<noteq> [] then tags \<inter> set matchAny \<noteq> {}
      else if matchAll \<noteq> [] then set matchAll \<subseteq> tags
      else True)"

definition SelectClusters ::
  "nat \<Rightarrow> nat \<Rightarrow> nat \<Rightarrow> string \<Rightarrow> string list \<Rightarrow> string list \<Rightarrow> string list list \<Rightarrow> string list"
where
  "SelectClusters ni gi ti clusterGroup matchAny matchAll rows =
     map (\<lambda>row. row ! ni)
       (filter (\<lambda>row. row ! gi = clusterGroup \<and> tagPolicy matchAny matchAll (tagSet (row ! ti))) rows)"

text \<open>For the proofs: the records of a list all have as many fields as the first.\<close>

definition rect :: "string list list \<Rightarrow> bool" where
  "rect recs \<longleftrightarrow> (\<forall>r\<in>set recs. length r = length (hd recs))"

text \<open>
  An example inventory: the records, and a file that holds them, one line for each
  record, the cell with a comma between quotes.
\<close>

definition exampleInventory :: "string list list" where
  "exampleInventory =
     [[''cluster_name'', ''cluster_group'', ''cluster_tags'',
       ''platform_repository_revision'', ''workload_repository_revision''],
      [''cluster1'', ''groupA'', ''tag1,tag2'', ''p0'', ''w0''],
      [''cluster2'', ''groupB'', ''tag1'', ''p0'', ''w0''],
      [''cluster3'', ''groupA'', ''tag1,tag4,tag5'', ''p0'', ''w0''],
      [''cluster4'', ''groupA'', ''tag2'', ''p0'', ''w0'']]"

definition quoted :: "string \<Rightarrow> string" where
  "quoted s = [CHR 0x22] @ s @ [CHR 0x22]"

definition fileOfLines :: "string \<Rightarrow> string list \<Rightarrow> string" where
  "fileOfLines eol ls = concat (map (\<lambda>l. l @ eol) ls)"

definition exampleInventoryFile :: string where
  "exampleInventoryFile =
     fileOfLines [CHR 0x0A]
       [''cluster_name,cluster_group,cluster_tags,platform_repository_revision,workload_repository_revision'',
        ''cluster1,groupA,'' @ quoted ''tag1,tag2'' @ '',p0,w0'',
        ''cluster2,groupB,tag1,p0,w0'',
        ''cluster3,groupA,'' @ quoted ''tag1,tag4,tag5'' @ '',p0,w0'',
        ''cluster4,groupA,tag2,p0,w0'']"

definition exampleFiles :: "string \<Rightarrow> osfile" where
  "exampleFiles path =
     (if path = ''repo/source_of_truth.csv'' then Content exampleInventoryFile
      else OpenFails (ErrorString (''open '' @ path @ '': no such file or directory'')))"

section \<open>The cleared directory as the specification words it\<close>



text \<open>Example inputs: a rendered output directory, a stale directory, and collaborators that all succeed.\<close>

definition exampleEntries :: "node list" where
  "exampleEntries =
     [File ''.gitkeep'' False,
      File ''cluster1.yaml'' False,
      Dir ''groupA'' False [File ''.gitkeep'' False, File ''cluster3.yaml'' False]]"

definition exampleTree :: "string \<Rightarrow> node option" where
  "exampleTree path =
     (if path = ''out/output'' then Some (Dir ''output'' False exampleEntries)
      else if path = ''hydrated'' then Some (Dir ''hydrated'' False [File ''stale.yaml'' False])
      else None)"


definition keepDirectoryEntries :: "node list" where
  "keepDirectoryEntries =
     [Dir ''.gitkeep'' False [File ''stale.yaml'' False, Dir ''groupA'' False []],
      File ''cluster1.yaml'' False]"

definition exampleEnv :: env where
  "exampleEnv =
     \<lparr>secretManager = (\<lambda>w svName. Inr (''token'', 0)),
      crc32Checksum = (\<lambda>payload. 0),
      gitRun = (\<lambda>w gitRepo op. (Inr (Some ''M source_of_truth.csv''), w)),
      createProvider = (\<lambda>w h r ow secret. None),
      openPullRequest = (\<lambda>w src dst title body. Inr 1),
      mergePullRequest = (\<lambda>w n. None),
      execCommand = (\<lambda>w binPath args dir. (Exited [], w)),
      gcsUploadResult = (\<lambda>w dr. Inr ''gs://bucket/results.json''),
      gcsUploadArtifact = (\<lambda>w a path. Inr ''gs://bucket/source_of_truth.csv''),
      resultMetadata = []\<rparr>"

section \<open>The revision update as the specification words it\<close>


section \<open>Example worlds\<close>

text \<open>
  A world in which the inventory and the output directory exist and every file can be
  written, and the same world with each of the two other output directories.
\<close>

definition exampleWorld :: world where
  "exampleWorld =
     \<lparr>files = exampleFiles,
      createFails = (\<lambda>path. None),
      writeFails = (\<lambda>path k. None),
      tree = exampleTree,
      trace = []\<rparr>"


definition keepDirectoryWorld :: world where
  "keepDirectoryWorld =
     exampleWorld\<lparr>tree := (tree exampleWorld)(''out/output'' :=
                                Some (Dir ''output'' False keepDirectoryEntries))\<rparr>"

text \<open>
  An inventory as a spreadsheet exports it: the cells of a row between quotes, the lines
  ending in \<open>\r\n\<close>.
\<close>

definition quotedInventoryFile :: string where
  "quotedInventoryFile =
     fileOfLines [CHR 0x0D, CHR 0x0A]
       [''cluster_name,platform_repository_revision,workload_repository_revision'',
        quoted ''cluster2'' @ '','' @ quoted ''p0'' @ '','' @ quoted ''w0'',
        ''cluster1,p0,w0'']"


section \<open>Paths that leave their repository directory\<close>

text \<open>
  A plain name is one path element: not empty, without a slash, and neither \<open>.\<close> nor
  \<open>..\<close>. A relative path escapes when, read element by element from the given
  depth, a \<open>..\<close> comes with nothing left to climb out of.
\<close>

definition plainName :: "string \<Rightarrow> bool" where
  "plainName s \<longleftrightarrow> s \<noteq> [] \<and> CHR ''/'' \<notin> set s \<and> s \<noteq> ''.'' \<and> s \<noteq> ''..''"

fun escapes :: "nat \<Rightarrow> string list \<Rightarrow> bool" where
  "escapes depth [] = False"
| "escapes depth (c # cs) =
     (if c = [] \<or> c = ''.'' then escapes depth cs
      else if c = ''..'' then (case depth of 0 \<Rightarrow> True | Suc d \<Rightarrow> escapes d cs)
      else escapes (Suc depth) cs)"

section \<open>Example deployments\<close>

text \<open>
  A deployer whose source and output references name the same repository, for a given
  batch size, and two variations of the collaborators: a secret that cannot be read and a
  working tree that never differs.
\<close>

fun isBatchLine :: "call \<Rightarrow> bool" where
  "isBatchLine (ProcessingBatch batch branch) = True"
| "isBatchLine c = False"

definition exampleRequest :: DeployRequest where
  "exampleRequest =
     \<lparr>Project = ''project'', Location = ''us-central1'', Pipeline = ''pipeline'',
      Target = ''target'', Release = ''release-1'', Rollout = ''rollout-1''\<rparr>"

definition exampleParams :: "int \<Rightarrow> params" where
  "exampleParams batchSize =
     \<lparr>gitSourceRepo = ''github.com/acme/repo'', gitSourceBranch = ''main'',
      gitSecret = ''projects/p/secrets/git/versions/1'', gitUsername = ''Cloud Deploy'',
      gitEmail = [], gitCommitMessage = [], gitOutputRepo = ''github.com/acme/repo'',
      gitOutputBranch = ''main'', gitPullRequestTitle = [], gitPullRequestBody = [],
      enablePullRequestMerge = False, hydrationClusterGroup = ''groupA'',
      hydrationPlatformRevision = ''p1'', hydrationWorkloadRevision = [],
      hydrationBatchSize = batchSize, hydrationWaitTimeBetweenBatches = 0,
      hydrationSourceOfTruth = ''source_of_truth.csv'', hydrationBaseDir = ''base_library/'',
      hydrationOverlaysDir = ''overlays/'', hydrationOutputDir = ''output'',
      matchClustersHavingAnyListedTag = [], matchClustersHavingAllListedTags = []\<rparr>"

definition exampleDeployer :: "int \<Rightarrow> deployer" where
  "exampleDeployer batchSize = \<lparr>req = exampleRequest, params = exampleParams batchSize\<rparr>"

definition secretDeniedEnv :: env where
  "secretDeniedEnv =
     exampleEnv\<lparr>secretManager := (\<lambda>w svName. Inl (ErrorString ''permission denied''))\<rparr>"


section \<open>The steps of a deploy, read off the trace\<close>

text \<open>
  The calls that mark a step: the clone and the configuration of a workspace, the diff
  check, the commit, the push and the opening of a pull request. A call is on the first
  workspace when it is not a git call on another repository object; it is quiet when it
  is on the first workspace and is not the log line of a batch. \<open>batchStepsOf\<close>
  lists the steps of one batch in a deploy whose source and output repository are the
  same, and \<open>numBatchesOf\<close> is the number of batches as \<open>deploy\<close> computes it
  from the selection.
\<close>

datatype step = Clone | Configure | Diff | CommitChanges | PushBranch | PullRequest

definition stepOf :: "call \<Rightarrow> step option" where
  "stepOf c =
     (case c of
        GitCall gitRepo op \<Rightarrow>
          (case op of
             CloneRepo secret \<Rightarrow> Some Clone
           | Config \<Rightarrow> Some Configure
           | DetectDiff \<Rightarrow> Some Diff
           | Commit commitMsg \<Rightarrow> Some CommitChanges
           | Push branch \<Rightarrow> Some PushBranch
           | _ \<Rightarrow> None)
      | OpenPullRequest src dst title body \<Rightarrow> Some PullRequest
      | _ \<Rightarrow> None)"

fun stepsOf :: "call list \<Rightarrow> step list" where
  "stepsOf [] = []"
| "stepsOf (c # cs) = (case stepOf c of None \<Rightarrow> stepsOf cs | Some k \<Rightarrow> k # stepsOf cs)"

definition onFirstWorkspace :: "call \<Rightarrow> bool" where
  "onFirstWorkspace c = (case c of GitCall gitRepo op \<Rightarrow> addr gitRepo = 0 | _ \<Rightarrow> True)"

definition quiet :: "call \<Rightarrow> bool" where
  "quiet c \<longleftrightarrow> onFirstWorkspace c \<and> \<not> isBatchLine c"






text \<open>
  For the proofs: a step of the program emits a list of steps when, from every world,
  the calls it adds are quiet and their steps are a prefix of the list, the whole list
  when the step succeeds; it yields a property when every value it returns has it; it
  ends with a call when that call is the last one made whenever the step succeeds.
  \<open>iterationsFrom\<close> counts the iterations that the loop over the batches has left at
  index \<open>i\<close>.
\<close>

definition emits :: "step list \<Rightarrow> 'a io \<Rightarrow> bool" where
  "emits ks m \<longleftrightarrow>
     (\<forall>w. \<exists>evs. trace (snd (m w)) = trace w @ evs \<and> list_all quiet evs \<and>
                prefix (stepsOf evs) ks \<and> (\<not> isl (fst (m w)) \<longrightarrow> stepsOf evs = ks))"




section \<open>Properties of the reader\<close>

lemma endRecord_rect: "endRecord recs rec = Inr recs' \<Longrightarrow> rect recs \<Longrightarrow> rect recs'"
  by (cases recs) (auto simp: endRecord_def rect_def split: if_splits)

lemma readRecord_rect:
  "readRecord pos field rec recs inp = Inr out \<Longrightarrow> rect recs \<Longrightarrow> rect out"
proof (induction inp arbitrary: pos field rec recs)
  case Nil
  then show ?case by (cases pos) (auto dest: endRecord_rect)
next
  case (Cons c line)
  show ?case
  proof (cases pos)
    case RecordStart
    with Cons.prems show ?thesis by (auto split: if_splits intro: Cons.IH)
  next
    case FieldStart
    with Cons.prems show ?thesis
      by (auto split: if_splits sum.splits intro: Cons.IH dest: endRecord_rect)
  next
    case Unquoted
    with Cons.prems show ?thesis
      by (auto split: if_splits sum.splits intro: Cons.IH dest: endRecord_rect)
  next
    case Quoted
    with Cons.prems show ?thesis by (auto split: if_splits intro: Cons.IH)
  next
    case QuoteInQuoted
    with Cons.prems show ?thesis
      by (auto split: if_splits sum.splits intro: Cons.IH dest: endRecord_rect)
  qed
qed

text \<open>Every record that \<open>ReadAll\<close> returns has as many fields as the first.\<close>

lemma ReadAll_rect:
  "ReadAll bytes = Inr (header # rows) \<Longrightarrow> \<forall>row\<in>set rows. length row = length header"
  using readRecord_rect[of RecordStart "[]" "[]" "[]" "readLines bytes" "header # rows"]
  by (simp add: ReadAll_def rect_def)

lemma ReadAll_exampleInventoryFile: "ReadAll exampleInventoryFile = Inr exampleInventory"
  by code_simp

section \<open>Properties of the selection\<close>

lemma Contains_iff: "Contains xs v \<longleftrightarrow> v \<in> set xs"
  by (induction xs) auto

lemma ContainsFunc_iff: "ContainsFunc xs f \<longleftrightarrow> (\<exists>x\<in>set xs. f x)"
  by (induction xs) auto

lemma matchesAnyTags_iff:
  "matchesAnyTags tags matchTags \<longleftrightarrow> matchTags \<noteq> [] \<and> set tags \<inter> set matchTags \<noteq> {}"
  by (auto simp: matchesAnyTags_def ContainsFunc_iff Contains_iff)

lemma matchesAllLoop_iff: "matchesAllLoop tags matchTags \<longleftrightarrow> set matchTags \<subseteq> set tags"
  by (induction matchTags) (auto simp: Contains_iff)

lemma matchesAllTags_iff:
  "matchesAllTags tags matchTags \<longleftrightarrow> matchTags \<noteq> [] \<and> set matchTags \<subseteq> set tags"
  by (simp add: matchesAllTags_def matchesAllLoop_iff)

lemma headerIndex_None_iff: "headerIndex hs f i = None \<longleftrightarrow> f \<notin> set hs"
  by (induction hs arbitrary: i) auto

lemma headerIndex_Some:
  "headerIndex hs f i = Some j \<Longrightarrow> i \<le> j \<and> j - i < length hs \<and> hs ! (j - i) = f"
proof (induction hs arbitrary: i)
  case Nil
  then show ?case by simp
next
  case (Cons h hs)
  show ?case
  proof (cases "h = f")
    case True
    with Cons.prems show ?thesis by simp
  next
    case False
    with Cons.prems have "headerIndex hs f (Suc i) = Some j" by simp
    from Cons.IH[OF this] have a: "Suc i \<le> j" "j - Suc i < length hs" "hs ! (j - Suc i) = f"
      by auto
    from a(1) have "j - i = Suc (j - Suc i)" by arith
    with a show ?thesis by simp
  qed
qed

lemma headerIndex_0_Some:
  "headerIndex hs f 0 = Some j \<Longrightarrow> j < length hs \<and> hs ! j = f"
  using headerIndex_Some[of hs f 0 j] by simp

lemma findFieldLoop_missing:
  "snd (findFieldLoop header fs indices missing) =
     missing @ filter (\<lambda>f. f \<notin> set header) fs"
proof (induction fs arbitrary: indices missing)
  case Nil
  then show ?case by simp
next
  case (Cons f fs)
  show ?case
  proof (cases "headerIndex header f 0")
    case None
    then have "f \<notin> set header" by (simp add: headerIndex_None_iff)
    with None Cons.IH show ?thesis by simp
  next
    case (Some i)
    then have "f \<in> set header" using headerIndex_None_iff[of header f 0] by auto
    with Some Cons.IH show ?thesis by simp
  qed
qed

text \<open>With a header that is not empty, the error names the missing fields in the order of the request.\<close>

lemma findFieldIndices_missing:
  assumes "header \<noteq> []" and "filter (\<lambda>f. f \<notin> set header) fs \<noteq> []"
  shows "findFieldIndices header fs =
           Inl (FieldsNotFoundError (filter (\<lambda>f. f \<notin> set header) fs))"
proof -
  obtain indices missing where r: "findFieldLoop header fs Map.empty [] = (indices, missing)"
    by (cases "findFieldLoop header fs Map.empty []")
  have "missing = filter (\<lambda>f. f \<notin> set header) fs"
    using findFieldLoop_missing[of header fs Map.empty "[]"] r by simp
  with assms r show ?thesis by (simp add: findFieldIndices_def)
qed

lemma determineClustersToUpdate_missing_columns:
  assumes "fsys (Join [repo, sourceOfTruth]) = Content bytes"
    and "ReadAll bytes = Inr (header # rows)"
    and "header \<noteq> []"
    and "filter (\<lambda>f. f \<notin> set header) [''cluster_name'', ''cluster_group'', ''cluster_tags''] \<noteq> []"
  shows "determineClustersToUpdate fsys repo sourceOfTruth clusterGroup anyTag allTags =
           Inl (FieldsNotFoundError
                  (filter (\<lambda>f. f \<notin> set header) [''cluster_name'', ''cluster_group'', ''cluster_tags'']))"
  using assms(1,2) findFieldIndices_missing[OF assms(3,4)]
  by (simp add: determineClustersToUpdate_def del: filter.simps)

lemma findFieldIndices_three:
  assumes "headerIndex header a 0 = Some ia"
    and "headerIndex header b 0 = Some ib"
    and "headerIndex header c 0 = Some ic"
  shows "findFieldIndices header [a, b, c] = Inr ([a \<mapsto> ia, b \<mapsto> ib, c \<mapsto> ic])"
proof -
  have "header \<noteq> []" using assms(1) by auto
  with assms show ?thesis by (simp add: findFieldIndices_def)
qed

lemma selectLoop_step:
  assumes "ni < length row" "gi < length row" "ti < length row"
  shows "selectLoop ni gi ti clusterGroup anyTag allTags (row # rows) acc =
           (if row ! gi = clusterGroup \<and> tagPolicy anyTag allTags (tagSet (row ! ti))
            then selectLoop ni gi ti clusterGroup anyTag allTags rows (acc @ [row ! ni])
            else selectLoop ni gi ti clusterGroup anyTag allTags rows acc)"
  using assms
  by (auto simp: tagPolicy_def tagSet_def matchesAnyTags_iff matchesAllTags_iff Let_def)

lemma selectLoop_filter:
  assumes "\<forall>row\<in>set rows. ni < length row \<and> gi < length row \<and> ti < length row"
  shows "selectLoop ni gi ti clusterGroup anyTag allTags rows acc =
           Inr (acc @ SelectClusters ni gi ti clusterGroup anyTag allTags rows)"
  using assms
proof (induction rows arbitrary: acc)
  case Nil
  then show ?case by (simp add: SelectClusters_def)
next
  case (Cons row rows)
  then have len: "ni < length row" "gi < length row" "ti < length row"
    and rest: "\<forall>row\<in>set rows. ni < length row \<and> gi < length row \<and> ti < length row"
    by auto
  have IH: "\<And>acc. selectLoop ni gi ti clusterGroup anyTag allTags rows acc =
              Inr (acc @ SelectClusters ni gi ti clusterGroup anyTag allTags rows)"
    by (rule Cons.IH[OF rest])
  show ?case
    unfolding selectLoop_step[OF len] IH
    by (simp add: SelectClusters_def)
qed

lemma indexPanic_0_0: "indexPanic 0 0 = Panic ''index out of range [0] with length 0''"
  by code_simp

text \<open>
  C4. A header that lacks required columns gives the error that names the missing columns
  in the order of the request (lemma \<open>determineClustersToUpdate_missing_columns\<close>
  above). An inventory file with no record at all (an empty file, or one that holds
  empty lines only) does not: \<open>records[0]\<close> is read before the header is looked at,
  and the function panics with an index out of range instead of reporting the three
  columns as missing.
\<close>

theorem determineClustersToUpdate_empty_file:
  assumes "ReadAll bytes = Inr []"
  shows "determineClustersToUpdate (\<lambda>path. Content bytes) repo sourceOfTruth clusterGroup anyTag allTags =
           Inl (Panic ''index out of range [0] with length 0'')"
  using assms by (simp add: determineClustersToUpdate_def indexPanic_0_0)

theorem determineClustersToUpdate_empty_file_witness:
  "ReadAll [] = Inr []
   \<and> determineClustersToUpdate (\<lambda>path. Content []) ''repo'' ''source_of_truth.csv'' ''groupA'' [] [] =
       Inl (Panic ''index out of range [0] with length 0'')"
proof -
  have r: "ReadAll [] = Inr []" by (simp add: ReadAll_def)
  from determineClustersToUpdate_empty_file[OF r] r show ?thesis by simp
qed

text \<open>
  C5. For an inventory file that the reader accepts and whose header holds the three
  columns, \<open>determineClustersToUpdate\<close> returns the names of exactly the rows of the
  requested group that satisfy the tag policy (match-any first, then match-all, then
  every row), in the order of the file and without removing duplicates.
\<close>

theorem determineClustersToUpdate_selects:
  assumes "fsys (Join [repo, sourceOfTruth]) = Content bytes"
    and "ReadAll bytes = Inr (header # rows)"
    and "headerIndex header ''cluster_name'' 0 = Some ni"
    and "headerIndex header ''cluster_group'' 0 = Some gi"
    and "headerIndex header ''cluster_tags'' 0 = Some ti"
  shows "determineClustersToUpdate fsys repo sourceOfTruth clusterGroup matchAny matchAll =
           Inr (SelectClusters ni gi ti clusterGroup matchAny matchAll rows)"
proof -
  have idx: "ni < length header" "gi < length header" "ti < length header"
    using assms(3,4,5) headerIndex_0_Some by blast+
  with ReadAll_rect[OF assms(2)]
  have rows: "\<forall>row\<in>set rows. ni < length row \<and> gi < length row \<and> ti < length row"
    by simp
  have "findFieldIndices header [''cluster_name'', ''cluster_group'', ''cluster_tags''] =
          Inr ([''cluster_name'' \<mapsto> ni, ''cluster_group'' \<mapsto> gi, ''cluster_tags'' \<mapsto> ti])"
    by (rule findFieldIndices_three[OF assms(3,4,5)])
  then show ?thesis
    using assms(1,2) selectLoop_filter[OF rows, of clusterGroup matchAny matchAll "[]"]
    by (simp add: determineClustersToUpdate_def mapIndex_def)
qed

theorem determineClustersToUpdate_selects_witness:
  "determineClustersToUpdate exampleFiles ''repo'' ''source_of_truth.csv'' ''groupA''
      [''tag1''] [''tag2''] = Inr [''cluster1'', ''cluster3'']"
proof -
  have f: "exampleFiles (Join [''repo'', ''source_of_truth.csv'']) = Content exampleInventoryFile"
    by code_simp
  have e: "exampleInventory = hd exampleInventory # tl exampleInventory"
    by (simp add: exampleInventory_def)
  have a: "ReadAll exampleInventoryFile = Inr (hd exampleInventory # tl exampleInventory)"
    using ReadAll_exampleInventoryFile e by simp
  have n: "headerIndex (hd exampleInventory) ''cluster_name'' 0 = Some 0"
    by code_simp
  have g: "headerIndex (hd exampleInventory) ''cluster_group'' 0 = Some 1"
    by code_simp
  have t: "headerIndex (hd exampleInventory) ''cluster_tags'' 0 = Some 2"
    by code_simp
  have s: "SelectClusters 0 1 2 ''groupA'' [''tag1''] [''tag2''] (tl exampleInventory) =
             [''cluster1'', ''cluster3'']"
    by code_simp
  show ?thesis
    using determineClustersToUpdate_selects
          [where fsys = exampleFiles and repo = "''repo''" and sourceOfTruth = "''source_of_truth.csv''"
             and clusterGroup = "''groupA''" and matchAny = "[''tag1'']" and matchAll = "[''tag2'']",
           OF f a n g t]
    by (simp only: s)
qed

section \<open>Properties of the revision update\<close>





lemma ReadAll_quotedInventoryFile:
  "ReadAll quotedInventoryFile =
     Inr [[''cluster_name'', ''platform_repository_revision'', ''workload_repository_revision''],
          [''cluster2'', ''p0'', ''w0''],
          [''cluster1'', ''p0'', ''w0'']]"
  by code_simp




section \<open>Properties of clearing the output directory\<close>




















text \<open>
  The comment of the function excepts the file \<open>.gitkeep\<close>; the loop skips every
  entry of that name before it looks at the kind, so a directory named \<open>.gitkeep\<close>
  stays as well, with all it holds.
\<close>

lemma cleanHydratedDirectory_keeps_sentinel_directory:
  "fst (cleanHydratedDirectory ''out/output'' keepDirectoryWorld) = None
   \<and> tree (snd (cleanHydratedDirectory ''out/output'' keepDirectoryWorld)) ''out/output'' =
       Some (Dir ''output'' False
               [Dir ''.gitkeep'' False [File ''stale.yaml'' False, Dir ''groupA'' False []]])"
  by code_simp




section \<open>Properties of the hydration step\<close>

lemma cleanHydratedDirectory_trace: "trace (snd (cleanHydratedDirectory directory w)) = trace w"
  by (simp add: cleanHydratedDirectory_def split: option.splits node.splits prod.splits)

lemma runCmd_trace: "trace (snd (runCmd e binPath args dir w)) = trace w @ [RunCmd binPath args dir]"
  by (simp add: runCmd_def Let_def split: prod.splits exec_result.splits)

lemma runCmd_Exited:
  "fst (execCommand e w binPath args dir) = Exited out \<Longrightarrow> fst (runCmd e binPath args dir w) = Inr out"
  by (cases "execCommand e w binPath args dir") (simp add: runCmd_def Let_def)

lemma runHydrationCLI_first_call:
  "\<exists>rest. trace (snd (runHydrationCLI e sourceRepo base overlay outputRepo outputPath sot w)) =
      trace w @ RunCmd ''hydrate'' (hydrateArgs sourceRepo base overlay outputPath sot) [] # rest"
proof -
  let ?w1 = "snd (cleanHydratedDirectory (clearedDirectory sourceRepo outputRepo outputPath) w)"
  let ?args = "hydrateArgs sourceRepo base overlay outputPath sot"
  obtain r1 w2 where 1: "runCmd e ''hydrate'' ?args [] ?w1 = (r1, w2)"
    by (cases "runCmd e ''hydrate'' ?args [] ?w1")
  have t2: "trace w2 = trace w @ [RunCmd ''hydrate'' ?args []]"
    using runCmd_trace[of e "''hydrate''" ?args "[]" ?w1] 1
    by (simp add: cleanHydratedDirectory_trace)
  show ?thesis
  proof (cases r1)
    case (Inl err)
    with 1 t2 show ?thesis by (simp add: runHydrationCLI_def Let_def)
  next
    case (Inr out1)
    obtain r2 w3 where 2: "runCmd e ''hydrate'' ?args [] w2 = (r2, w3)"
      by (cases "runCmd e ''hydrate'' ?args [] w2")
    have t3: "trace w3 = trace w2 @ [RunCmd ''hydrate'' ?args []]"
      using runCmd_trace[of e "''hydrate''" ?args "[]" w2] 2 by simp
    from Inr 1 2 t2 t3 show ?thesis
      by (cases r2) (simp_all add: runHydrationCLI_def Let_def)
  qed
qed

text \<open>
  C3. The argument list is the fixed one, every path joined to the source repository.
  The renderer is not started once, though: when its first run succeeds it is started a
  second time with the same arguments, so a batch whose rendering succeeds runs it twice.
\<close>

theorem runHydrationCLI_runs_renderer_twice:
  assumes "fst (execCommand e
                  (snd (cleanHydratedDirectory (clearedDirectory sourceRepo outputRepo outputPath) w))
                  ''hydrate'' (hydrateArgs sourceRepo base overlay outputPath sot) []) = Exited out"
  shows "trace (snd (runHydrationCLI e sourceRepo base overlay outputRepo outputPath sot w)) =
           trace w @
           [RunCmd ''hydrate''
              [''-b'', Join [sourceRepo, base], ''-o'', Join [sourceRepo, overlay],
               ''-y'', Join [sourceRepo, outputPath], Join [sourceRepo, sot]] [],
            RunCmd ''hydrate''
              [''-b'', Join [sourceRepo, base], ''-o'', Join [sourceRepo, overlay],
               ''-y'', Join [sourceRepo, outputPath], Join [sourceRepo, sot]] []]"
proof -
  let ?w1 = "snd (cleanHydratedDirectory (clearedDirectory sourceRepo outputRepo outputPath) w)"
  let ?args = "hydrateArgs sourceRepo base overlay outputPath sot"
  obtain r1 w2 where 1: "runCmd e ''hydrate'' ?args [] ?w1 = (r1, w2)"
    by (cases "runCmd e ''hydrate'' ?args [] ?w1")
  have r1: "r1 = Inr out" using runCmd_Exited[OF assms] 1 by simp
  have t2: "trace w2 = trace w @ [RunCmd ''hydrate'' ?args []]"
    using runCmd_trace[of e "''hydrate''" ?args "[]" ?w1] 1
    by (simp add: cleanHydratedDirectory_trace)
  obtain r2 w3 where 2: "runCmd e ''hydrate'' ?args [] w2 = (r2, w3)"
    by (cases "runCmd e ''hydrate'' ?args [] w2")
  have t3: "trace w3 = trace w2 @ [RunCmd ''hydrate'' ?args []]"
    using runCmd_trace[of e "''hydrate''" ?args "[]" w2] 2 by simp
  have "trace (snd (runHydrationCLI e sourceRepo base overlay outputRepo outputPath sot w)) =
          trace w @ [RunCmd ''hydrate'' ?args [], RunCmd ''hydrate'' ?args []]"
    using r1 1 2 t2 t3 by (cases r2) (simp_all add: runHydrationCLI_def Let_def)
  then show ?thesis by (simp add: hydrateArgs_def)
qed

theorem runHydrationCLI_runs_renderer_twice_witness:
  "trace (snd (runHydrationCLI exampleEnv ''repo'' ''base_library/'' ''overlays/'' ''out'' ''output''
                 ''source_of_truth.csv'' exampleWorld)) =
     [RunCmd ''hydrate''
        [''-b'', ''repo/base_library'', ''-o'', ''repo/overlays'', ''-y'', ''repo/output'',
         ''repo/source_of_truth.csv''] [],
      RunCmd ''hydrate''
        [''-b'', ''repo/base_library'', ''-o'', ''repo/overlays'', ''-y'', ''repo/output'',
         ''repo/source_of_truth.csv''] []]"
proof -
  have x: "fst (execCommand exampleEnv
                  (snd (cleanHydratedDirectory (clearedDirectory ''repo'' ''out'' ''output'') exampleWorld))
                  ''hydrate''
                  (hydrateArgs ''repo'' ''base_library/'' ''overlays/'' ''output'' ''source_of_truth.csv'')
                  []) = Exited []"
    by (simp add: exampleEnv_def)
  have j: "Join [''repo'', ''base_library/''] = ''repo/base_library''"
    "Join [''repo'', ''overlays/''] = ''repo/overlays''"
    "Join [''repo'', ''output''] = ''repo/output''"
    "Join [''repo'', ''source_of_truth.csv''] = ''repo/source_of_truth.csv''"
    by code_simp+
  have t: "trace exampleWorld = []" by (simp add: exampleWorld_def)
  show ?thesis
    using runHydrationCLI_runs_renderer_twice[OF x] by (simp only: j t append_Nil)
qed

text \<open>
  C9. Whenever clearing the output directory fails, the renderer is started all the same,
  and when the renderer's runs succeed the hydration step succeeds: the error of the
  cleanup is dropped.
\<close>

theorem runHydrationCLI_ignores_cleanup_failure:
  assumes "fst (cleanHydratedDirectory (clearedDirectory sourceRepo outputRepo outputPath) w) = Some err"
  shows "(\<exists>rest. trace (snd (runHydrationCLI e sourceRepo base overlay outputRepo outputPath sot w)) =
            trace w @ RunCmd ''hydrate'' (hydrateArgs sourceRepo base overlay outputPath sot) [] # rest)
       \<and> ((\<forall>w'. \<exists>out. fst (execCommand e w' ''hydrate''
                               (hydrateArgs sourceRepo base overlay outputPath sot) []) = Exited out) \<longrightarrow>
            fst (runHydrationCLI e sourceRepo base overlay outputRepo outputPath sot w) = Inr ())"
proof (intro conjI impI)
  show "\<exists>rest. trace (snd (runHydrationCLI e sourceRepo base overlay outputRepo outputPath sot w)) =
            trace w @ RunCmd ''hydrate'' (hydrateArgs sourceRepo base overlay outputPath sot) [] # rest"
    by (rule runHydrationCLI_first_call)
next
  let ?w1 = "snd (cleanHydratedDirectory (clearedDirectory sourceRepo outputRepo outputPath) w)"
  let ?args = "hydrateArgs sourceRepo base overlay outputPath sot"
  assume ok: "\<forall>w'. \<exists>out. fst (execCommand e w' ''hydrate'' ?args []) = Exited out"
  obtain r1 w2 where 1: "runCmd e ''hydrate'' ?args [] ?w1 = (r1, w2)"
    by (cases "runCmd e ''hydrate'' ?args [] ?w1")
  from ok obtain out1 where "fst (execCommand e ?w1 ''hydrate'' ?args []) = Exited out1" by blast
  from runCmd_Exited[OF this] 1 have r1: "r1 = Inr out1" by simp
  obtain r2 w3 where 2: "runCmd e ''hydrate'' ?args [] w2 = (r2, w3)"
    by (cases "runCmd e ''hydrate'' ?args [] w2")
  from ok obtain out2 where "fst (execCommand e w2 ''hydrate'' ?args []) = Exited out2" by blast
  from runCmd_Exited[OF this] 2 have r2: "r2 = Inr out2" by simp
  show "fst (runHydrationCLI e sourceRepo base overlay outputRepo outputPath sot w) = Inr ()"
    using 1 2 r1 r2 by (simp add: runHydrationCLI_def Let_def)
qed

theorem runHydrationCLI_ignores_cleanup_failure_witness:
  "fst (cleanHydratedDirectory (clearedDirectory ''repo'' [] ''output'') exampleWorld) =
     Some (ErrorString ''open repo/output: no such file or directory'')
   \<and> fst (runHydrationCLI exampleEnv ''repo'' ''base_library/'' ''overlays/'' [] ''output''
            ''source_of_truth.csv'' exampleWorld) = Inr ()"
proof -
  have c: "fst (cleanHydratedDirectory (clearedDirectory ''repo'' [] ''output'') exampleWorld) =
             Some (ErrorString ''open repo/output: no such file or directory'')"
    by code_simp
  have ok: "\<forall>w'. \<exists>out. fst (execCommand exampleEnv w' ''hydrate''
              (hydrateArgs ''repo'' ''base_library/'' ''overlays/'' ''output'' ''source_of_truth.csv'') []) =
              Exited out"
    by (simp add: exampleEnv_def)
  from runHydrationCLI_ignores_cleanup_failure[OF c, of exampleEnv "''base_library/''" "''overlays/''"
      "''source_of_truth.csv''"] ok c
  show ?thesis by blast
qed

section \<open>The cleared directory and the output argument\<close>

lemma Split_nonempty: "Split s sep \<noteq> []"
  by (induction s) (auto split: list.splits)

lemma Split_append:
  "sep \<notin> set a \<Longrightarrow> Split (a @ sep # p) sep = a # Split p sep"
  by (induction a) auto

lemma JoinStrings_Cons:
  "JoinStrings (a # ys) sep = a @ (if ys = [] then [] else sep @ JoinStrings ys sep)"
  by (cases ys) auto

lemma foldl_cleanStep_keep:
  assumes "\<not> escapes (length st) cs" and "''..'' \<notin> set st"
  shows "foldl (cleanStep False) (st @ [a]) cs = foldl (cleanStep False) st cs @ [a]"
  using assms
proof (induction cs arbitrary: st)
  case Nil
  then show ?case by simp
next
  case (Cons c cs)
  show ?case
  proof (cases "c = [] \<or> c = ''.''")
    case True
    with Cons show ?thesis by (simp add: cleanStep_def)
  next
    case real: False
    show ?thesis
    proof (cases "c = ''..''")
      case True
      show ?thesis
      proof (cases st)
        case Nil
        with True real Cons.prems show ?thesis by simp
      next
        case (Cons x xs)
        with Cons.prems(2) have x: "x \<noteq> ''..''" and xs: "''..'' \<notin> set xs" by auto
        from Cons True real Cons.prems(1) have e: "\<not> escapes (length xs) cs" by simp
        have "cleanStep False (st @ [a]) c = xs @ [a]"
          using Cons True x by (simp add: cleanStep_def)
        moreover have "cleanStep False st c = xs"
          using Cons True x by (simp add: cleanStep_def)
        ultimately show ?thesis using Cons.IH[OF e xs] by simp
      qed
    next
      case False
      with real Cons.prems(1) have e: "\<not> escapes (length (c # st)) cs" by simp
      from False Cons.prems(2) have n: "''..'' \<notin> set (c # st)" by simp
      have "cleanStep False (st @ [a]) c = (c # st) @ [a]"
        using False real by (simp add: cleanStep_def)
      moreover have "cleanStep False st c = c # st"
        using False real by (simp add: cleanStep_def)
      ultimately show ?thesis using Cons.IH[OF e n] by simp
    qed
  qed
qed

lemma foldl_cleanStep_merge:
  assumes "escapes (length st) cs" and "''..'' \<notin> set st" and "a \<noteq> ''..''" and "b \<noteq> ''..''"
  shows "foldl (cleanStep False) (st @ [a]) cs = foldl (cleanStep False) (st @ [b]) cs"
  using assms(1,2)
proof (induction cs arbitrary: st)
  case Nil
  then show ?case by simp
next
  case (Cons c cs)
  show ?case
  proof (cases "c = [] \<or> c = ''.''")
    case True
    with Cons show ?thesis by (simp add: cleanStep_def)
  next
    case real: False
    show ?thesis
    proof (cases "c = ''..''")
      case True
      show ?thesis
      proof (cases st)
        case Nil
        with True assms(3,4) show ?thesis by (simp add: cleanStep_def)
      next
        case (Cons x xs)
        with Cons.prems(2) have x: "x \<noteq> ''..''" and xs: "''..'' \<notin> set xs" by auto
        from Cons True real Cons.prems(1) have e: "escapes (length xs) cs" by simp
        have "cleanStep False (st @ [a]) c = xs @ [a]" "cleanStep False (st @ [b]) c = xs @ [b]"
          using Cons True x by (simp_all add: cleanStep_def)
        then show ?thesis using Cons.IH[OF e xs] by simp
      qed
    next
      case False
      with real Cons.prems(1) have e: "escapes (length (c # st)) cs" by simp
      from False Cons.prems(2) have n: "''..'' \<notin> set (c # st)" by simp
      have "cleanStep False (st @ [a]) c = (c # st) @ [a]"
        "cleanStep False (st @ [b]) c = (c # st) @ [b]"
        using False real by (simp_all add: cleanStep_def)
      then show ?thesis using Cons.IH[OF e n] by simp
    qed
  qed
qed

lemma Join_plain:
  assumes "plainName a"
  shows "Join [a, p] =
           (let out = JoinStrings (rev (foldl (cleanStep False) [a] (Split p CHR ''/''))) ''/''
            in if out = [] then ''.'' else out)"
proof -
  from assms have ne: "a \<noteq> []" and ns: "CHR ''/'' \<notin> set a" and nd: "a \<noteq> ''.''" "a \<noteq> ''..''"
    by (simp_all add: plainName_def)
  from ne ns have hd: "hd (a @ CHR ''/'' # p) \<noteq> CHR ''/''"
    by (cases a) auto
  have sp: "Split (a @ CHR ''/'' # p) CHR ''/'' = a # Split p CHR ''/''"
    by (rule Split_append[OF ns])
  have st: "cleanStep False [] a = [a]" using ne nd by (simp add: cleanStep_def)
  have "Join [a, p] = Clean (a @ CHR ''/'' # p)" using ne by simp
  also have "\<dots> = (let out = JoinStrings (rev (foldl (cleanStep False) [a] (Split p CHR ''/''))) ''/''
            in if out = [] then ''.'' else out)"
    using hd ne by (simp add: Clean_def sp st Let_def)
  finally show ?thesis .
qed

lemma Join_plain_keep:
  assumes "plainName a" and "\<not> escapes 0 (Split p CHR ''/'')"
  shows "\<exists>t. Join [a, p] = a @ t \<and>
             t = (let ys = rev (foldl (cleanStep False) [] (Split p CHR ''/''))
                  in if ys = [] then [] else ''/'' @ JoinStrings ys ''/'')"
proof -
  let ?X = "foldl (cleanStep False) [] (Split p CHR ''/'')"
  from assms(1) have ne: "a \<noteq> []" by (simp add: plainName_def)
  have "foldl (cleanStep False) ([] @ [a]) (Split p CHR ''/'') = ?X @ [a]"
    by (rule foldl_cleanStep_keep) (use assms(2) in simp_all)
  then have f: "foldl (cleanStep False) [a] (Split p CHR ''/'') = ?X @ [a]" by simp
  have j: "JoinStrings (rev (?X @ [a])) ''/'' =
             a @ (if rev ?X = [] then [] else ''/'' @ JoinStrings (rev ?X) ''/'')"
    using JoinStrings_Cons[of a "rev ?X" "''/''"] by simp
  have "Join [a, p] = a @ (if rev ?X = [] then [] else ''/'' @ JoinStrings (rev ?X) ''/'')"
    unfolding Join_plain[OF assms(1)] f j using ne by (simp add: Let_def)
  then show ?thesis by (simp add: Let_def)
qed

text \<open>
  C10, as amended. For two different repository names that are plain path elements, the
  cleared directory and the renderer's \<open>-y\<close> argument are the same path exactly when the
  output directory climbs out of its repository directory with \<open>..\<close> elements; for an
  output directory that stays inside (such as \<open>output\<close>) they differ.
\<close>

theorem clearedDirectory_vs_output_argument:
  assumes "plainName sourceRepo" and "plainName outputRepo" and "outputRepo \<noteq> sourceRepo"
  shows "clearedDirectory sourceRepo outputRepo outputPath =
           hydrateArgs sourceRepo base overlay outputPath sot ! 5
         \<longleftrightarrow> escapes 0 (Split outputPath CHR ''/'')"
proof -
  have o: "outputRepo \<noteq> []" using assms(2) by (simp add: plainName_def)
  have c: "clearedDirectory sourceRepo outputRepo outputPath = Join [outputRepo, outputPath]"
    using o by (simp add: clearedDirectory_def)
  have y: "hydrateArgs sourceRepo base overlay outputPath sot ! 5 = Join [sourceRepo, outputPath]"
    by (simp add: hydrateArgs_def)
  show ?thesis
  proof (cases "escapes 0 (Split outputPath CHR ''/'')")
    case True
    have "foldl (cleanStep False) ([] @ [outputRepo]) (Split outputPath CHR ''/'') =
          foldl (cleanStep False) ([] @ [sourceRepo]) (Split outputPath CHR ''/'')"
      by (rule foldl_cleanStep_merge) (use True assms in \<open>simp_all add: plainName_def\<close>)
    then have "Join [outputRepo, outputPath] = Join [sourceRepo, outputPath]"
      unfolding Join_plain[OF assms(1)] Join_plain[OF assms(2)] by simp
    with True c y show ?thesis by simp
  next
    case False
    from Join_plain_keep[OF assms(1) False] Join_plain_keep[OF assms(2) False]
    obtain t where "Join [sourceRepo, outputPath] = sourceRepo @ t"
      and "Join [outputRepo, outputPath] = outputRepo @ t" by auto
    with assms(3) have "Join [outputRepo, outputPath] \<noteq> Join [sourceRepo, outputPath]" by simp
    with False c y show ?thesis by simp
  qed
qed

theorem clearedDirectory_vs_output_argument_witness:
  "clearedDirectory ''repo'' ''out'' ''output'' = ''out/output''
   \<and> hydrateArgs ''repo'' ''base_library/'' ''overlays/'' ''output'' ''source_of_truth.csv'' ! 5 = ''repo/output''
   \<and> \<not> escapes 0 (Split ''output'' CHR ''/'')"
proof -
  have p: "plainName ''repo''" "plainName ''out''" "''out'' \<noteq> ''repo''"
    by (simp_all add: plainName_def)
  have e: "\<not> escapes 0 (Split ''output'' CHR ''/'')" by code_simp
  have c: "clearedDirectory ''repo'' ''out'' ''output'' = ''out/output''" by code_simp
  have y: "hydrateArgs ''repo'' ''base_library/'' ''overlays/'' ''output'' ''source_of_truth.csv'' ! 5 =
             ''repo/output''" by code_simp
  from clearedDirectory_vs_output_argument[OF p, of "''output''" "''base_library/''" "''overlays/''"
      "''source_of_truth.csv''"] e c y
  show ?thesis by simp
qed

text \<open>
  C10, as stated, fails: with the output directory \<open>../hydrated\<close> the directory that is
  cleared and the directory given to the renderer are both \<open>hydrated\<close>, although the
  output repository is named and differs from the source repository.
\<close>

theorem clearedDirectory_is_output_argument_counterexample:
  "''out'' \<noteq> [] \<and> ''out'' \<noteq> ''repo''
   \<and> tree (snd (runHydrationCLI exampleEnv ''repo'' ''base_library/'' ''overlays/'' ''out''
                   ''../hydrated'' ''source_of_truth.csv'' exampleWorld)) ''hydrated'' =
       Some (Dir ''hydrated'' False [])
   \<and> tree exampleWorld ''hydrated'' = Some (Dir ''hydrated'' False [File ''stale.yaml'' False])
   \<and> trace (snd (runHydrationCLI exampleEnv ''repo'' ''base_library/'' ''overlays/'' ''out''
                   ''../hydrated'' ''source_of_truth.csv'' exampleWorld)) =
       [RunCmd ''hydrate''
          [''-b'', ''repo/base_library'', ''-o'', ''repo/overlays'', ''-y'', ''hydrated'',
           ''repo/source_of_truth.csv''] [],
        RunCmd ''hydrate''
          [''-b'', ''repo/base_library'', ''-o'', ''repo/overlays'', ''-y'', ''hydrated'',
           ''repo/source_of_truth.csv''] []]"
  by code_simp

section \<open>Properties of process and of the batching\<close>

text \<open>
  C1. When the deploy fails with an error and the upload of the failure result succeeds,
  the failure result carries the message of the error and is uploaded, but \<open>process\<close>
  then returns no error: the run is reported as a success, not as the failed deploy.
\<close>

theorem process_returns_nil_after_failed_deploy:
  assumes "deploy e d w = Some (Inl err, w1)"
    and "\<not> is_Panic err"
    and "gcsUploadResult e w1
           \<lparr>ResultStatus = DeployFailed, FailureMessage = Error err, ArtifactFiles = [],
            Metadata = resultMetadata e\<rparr> = Inr rURI"
  shows "process e d w =
           Some (None,
                 w1\<lparr>trace := trace w1 @
                    [UploadResult \<lparr>ResultStatus = DeployFailed, FailureMessage = Error err,
                                   ArtifactFiles = [], Metadata = resultMetadata e\<rparr>]\<rparr>)"
  using assms
  by (cases err) (simp_all add: process_def uploadResult_def logCall_def Let_def)

theorem process_returns_nil_after_failed_deploy_witness:
  "fst (the (deploy secretDeniedEnv (exampleDeployer 1) exampleWorld)) =
     Inl (ErrorString
       ''unable to access git secret: failed to access secret version projects/p/secrets/git/versions/1: permission denied'')
   \<and> fst (the (process secretDeniedEnv (exampleDeployer 1) exampleWorld)) = None"
proof -
  let ?e = "ErrorString
       ''unable to access git secret: failed to access secret version projects/p/secrets/git/versions/1: permission denied''"
  let ?w1 = "snd (the (deploy secretDeniedEnv (exampleDeployer 1) exampleWorld))"
  have s: "deploy secretDeniedEnv (exampleDeployer 1) exampleWorld \<noteq> None" by code_simp
  have f: "fst (the (deploy secretDeniedEnv (exampleDeployer 1) exampleWorld)) = Inl ?e"
    by code_simp
  from s f have d: "deploy secretDeniedEnv (exampleDeployer 1) exampleWorld = Some (Inl ?e, ?w1)"
    by (metis option.collapse prod.collapse)
  have p: "\<not> is_Panic ?e" by simp
  have u: "gcsUploadResult secretDeniedEnv ?w1
             \<lparr>ResultStatus = DeployFailed, FailureMessage = Error ?e, ArtifactFiles = [],
              Metadata = resultMetadata secretDeniedEnv\<rparr> = Inr ''gs://bucket/results.json''"
    by (simp add: secretDeniedEnv_def exampleEnv_def)
  from process_returns_nil_after_failed_deploy[OF d p u] f show ?thesis by simp
qed

text \<open>The example deployment with the batch size zero, run to its end.\<close>

lemma deploy_example_batch_size_zero:
  "map_option (\<lambda>(r, w). (isl r, filter isBatchLine (trace w), stepsOf (trace w)))
     (deploy exampleEnv (exampleDeployer 0) exampleWorld) =
   Some (False, [ProcessingBatch [] ''rollout-1__1/1''],
         [Clone, Configure, Configure, Diff, CommitChanges, PushBranch, PullRequest])"
  by code_simp

text \<open>
  C2. With a batch size of zero the effective batch size is the length of the selection,
  and there is one batch named \<open>1/1\<close>; but the end of the slice is computed from the
  batch size as configured, so the batch is empty instead of holding the three selected
  clusters. With a negative batch size the slice bound is negative and the program
  panics.
\<close>

theorem deploy_batch_size_zero_gives_empty_batch:
  "determineClustersToUpdate (files exampleWorld) ''repo'' ''source_of_truth.csv'' ''groupA'' [] [] =
     Inr [''cluster1'', ''cluster3'', ''cluster4'']
   \<and> map_option (\<lambda>(r, w). filter isBatchLine (trace w))
         (deploy exampleEnv (exampleDeployer 0) exampleWorld) =
       Some [ProcessingBatch [] ''rollout-1__1/1'']
   \<and> map_option fst (deploy exampleEnv (exampleDeployer (- 1)) exampleWorld) =
       Some (Inl (Panic ''slice bounds out of range [:-1]''))"
proof -
  have 1: "determineClustersToUpdate (files exampleWorld) ''repo'' ''source_of_truth.csv'' ''groupA'' [] [] =
             Inr [''cluster1'', ''cluster3'', ''cluster4'']"
    by code_simp
  have 2: "map_option (\<lambda>(r, w). filter isBatchLine (trace w))
             (deploy exampleEnv (exampleDeployer 0) exampleWorld) =
           Some [ProcessingBatch [] ''rollout-1__1/1'']"
    using deploy_example_batch_size_zero
    by (cases "deploy exampleEnv (exampleDeployer 0) exampleWorld") auto
  have 3: "map_option fst (deploy exampleEnv (exampleDeployer (- 1)) exampleWorld) =
             Some (Inl (Panic ''slice bounds out of range [:-1]''))"
    by code_simp
  from 1 2 3 show ?thesis by (intro conjI)
qed

section \<open>The steps of a deploy with one repository\<close>

lemma stepsOf_append: "stepsOf (xs @ ys) = stepsOf xs @ stepsOf ys"
  by (induction xs) (auto split: option.splits)

lemma emitsI:
  assumes "\<And>w. \<exists>evs. trace (snd (m w)) = trace w @ evs \<and> list_all quiet evs \<and>
                prefix (stepsOf evs) ks \<and> (\<not> isl (fst (m w)) \<longrightarrow> stepsOf evs = ks)"
  shows "emits ks m"
  using assms unfolding emits_def by blast

lemma emitsD:
  assumes "emits ks m"
  shows "\<exists>evs. trace (snd (m w)) = trace w @ evs \<and> list_all quiet evs \<and>
                prefix (stepsOf evs) ks \<and> (\<not> isl (fst (m w)) \<longrightarrow> stepsOf evs = ks)"
  using assms unfolding emits_def by blast

lemma emits_ret: "emits [] (ret x)"
  by (rule emitsI) (simp add: ret_def)



lemma emits_one:
  assumes "\<And>w. trace (snd (m w)) = trace w @ [c]" and "quiet c"
  shows "emits (stepsOf [c]) m"
proof (rule emitsI)
  fix w
  have "trace (snd (m w)) = trace w @ [c] \<and> list_all quiet [c] \<and>
          prefix (stepsOf [c]) (stepsOf [c]) \<and> (\<not> isl (fst (m w)) \<longrightarrow> stepsOf [c] = stepsOf [c])"
    using assms by simp
  then show "\<exists>evs. trace (snd (m w)) = trace w @ evs \<and> list_all quiet evs \<and>
                prefix (stepsOf evs) (stepsOf [c]) \<and> (\<not> isl (fst (m w)) \<longrightarrow> stepsOf evs = stepsOf [c])"
    by blast
qed

lemma emits_andThen:
  assumes m: "emits ks1 m" and f: "\<And>x. emits ks2 (f x)"
  shows "emits (ks1 @ ks2) (andThen m f)"
proof (rule emitsI)
  fix w
  obtain r w1 where mw: "m w = (r, w1)" by (cases "m w")
  from emitsD[OF m, of w] obtain evs1 where e1: "trace (snd (m w)) = trace w @ evs1"
    "list_all quiet evs1" "prefix (stepsOf evs1) ks1" "\<not> isl (fst (m w)) \<longrightarrow> stepsOf evs1 = ks1"
    by blast
  show "\<exists>evs. trace (snd (andThen m f w)) = trace w @ evs \<and> list_all quiet evs \<and>
                prefix (stepsOf evs) (ks1 @ ks2) \<and>
                (\<not> isl (fst (andThen m f w)) \<longrightarrow> stepsOf evs = ks1 @ ks2)"
  proof (cases r)
    case (Inl err)
    with mw have a: "andThen m f w = (Inl err, w1)" by (simp add: andThen_def)
    from e1(3) have "prefix (stepsOf evs1) (ks1 @ ks2)" by (rule prefix_prefix)
    with a e1(1,2) mw show ?thesis by auto
  next
    case (Inr x)
    with mw have a: "andThen m f w = f x w1" by (simp add: andThen_def)
    from Inr mw e1(4) have s1: "stepsOf evs1 = ks1" by simp
    from emitsD[OF f[of x], of w1] obtain evs2 where e2: "trace (snd (f x w1)) = trace w1 @ evs2"
      "list_all quiet evs2" "prefix (stepsOf evs2) ks2" "\<not> isl (fst (f x w1)) \<longrightarrow> stepsOf evs2 = ks2"
      by blast
    have t: "trace (snd (andThen m f w)) = trace w @ (evs1 @ evs2)"
      using a e1(1) e2(1) mw by simp
    have q: "list_all quiet (evs1 @ evs2)" using e1(2) e2(2) by simp
    have p: "prefix (stepsOf (evs1 @ evs2)) (ks1 @ ks2)"
      using s1 e2(3) by (simp add: stepsOf_append)
    have s: "\<not> isl (fst (andThen m f w)) \<longrightarrow> stepsOf (evs1 @ evs2) = ks1 @ ks2"
      using a s1 e2(4) by (simp add: stepsOf_append)
    from t q p s show ?thesis by blast
  qed
qed

lemma emits_orFail:
  assumes "emits ks m"
  shows "emits ks (orFail msg m)"
proof (rule emitsI)
  fix w
  obtain r w1 where mw: "m w = (r, w1)" by (cases "m w")
  from emitsD[OF assms, of w] obtain evs where e: "trace (snd (m w)) = trace w @ evs"
    "list_all quiet evs" "prefix (stepsOf evs) ks" "\<not> isl (fst (m w)) \<longrightarrow> stepsOf evs = ks"
    by blast
  have "snd (orFail msg m w) = w1 \<and> isl (fst (orFail msg m w)) = isl r"
    using mw by (cases r) (simp_all add: orFail_def)
  with e mw show "\<exists>evs. trace (snd (orFail msg m w)) = trace w @ evs \<and> list_all quiet evs \<and>
                prefix (stepsOf evs) ks \<and> (\<not> isl (fst (orFail msg m w)) \<longrightarrow> stepsOf evs = ks)"
    by auto
qed







lemma emits_log:
  assumes "quiet c" and "stepOf c = None"
  shows "emits [] (\<lambda>w. (r w, logCall c w))"
proof -
  have "emits (stepsOf [c]) (\<lambda>w. (r w, logCall c w))"
    by (rule emits_one) (simp_all add: logCall_def assms)
  then show ?thesis using assms(2) by simp
qed


















lemma deployFinish_emits: "emits [] (deployFinish e d gitSrc)"
proof -
  have "emits ([] @ []) (deployFinish e d gitSrc)"
    unfolding deployFinish_def
    by (intro emits_andThen emits_orFail emits_log emits_ret)
       (simp_all add: quiet_def onFirstWorkspace_def stepOf_def)
  then show ?thesis by simp
qed














end
